theory Spec2Isabelle
  imports Complex_Main "HOL-Library.Log_Nat"
begin

section \<open>The Anki SM-2 scheduler of \<^verbatim>\<open>src/sr-algorithm.ts\<close>\<close>

text \<open>
  The scheduler is the class \<^verbatim>\<open>AnkiScheduler\<close>: a settings object fixed at construction
  and one public method, \<^verbatim>\<open>schedule(card, rating, now)\<close>, which clones the card and
  lets \<^verbatim>\<open>handleLearning\<close> or \<^verbatim>\<open>handleReview\<close> update the clone.

  The class is translated three times, each time for the properties it serves:
  \<^item> with exact arithmetic (this section): a number is a \<^typ>\<open>real\<close>, a \<^verbatim>\<open>Date\<close>
    is its time value, the milliseconds since the epoch, as a \<^typ>\<open>real option\<close>, and
    a day is 86400000 milliseconds. There is no rounding, no infinity, no limit to the
    range of \<^verbatim>\<open>Date\<close> and no calendar. It serves the properties of the state, the
    step index and the fields a call leaves alone, and the bounds of ease and interval.
  \<^item> on a store of objects (the next section): the same arithmetic, with the cards and
    the dates as objects behind addresses. It serves the property that a call leaves
    its arguments alone.
  \<^item> with doubles and calendar dates (the section after that): a number is an IEEE 754
    double, the time value of a date is a whole number of milliseconds within the range
    of \<^verbatim>\<open>Date\<close>, and \<^verbatim>\<open>setDate\<close> moves a date on the calendar of the time zone of
    the host. It serves the properties of the interval a review computes and of a due
    date in days.

  Conventions of all three:
  \<^item> \<^verbatim>\<open>stepIndex\<close>, an array index, is an \<^typ>\<open>int\<close>; every other field of type
    \<^verbatim>\<open>number\<close>, of a card and of the settings, is a number of the translation.
  \<^item> \<open>None\<close> is the invalid date, which \<^verbatim>\<open>new Date(x)\<close> gives when \<open>x\<close> is not a
    number. The argument \<^verbatim>\<open>now\<close> is a valid date.
  \<^item> reading an array outside its bounds gives \<^verbatim>\<open>undefined\<close>; arithmetic on it gives
    \<^verbatim>\<open>NaN\<close>, and the date built from that is invalid.
\<close>

subsection \<open>Data\<close>

datatype Rating = Again | Hard | Good | Easy

datatype CardState = New | Learning | Review | Relearning

text \<open>
  The interface \<^verbatim>\<open>Card\<close>. The field \<^verbatim>\<open>id\<close> is \<open>card_id\<close> here. The type of
  \<^verbatim>\<open>dueDate\<close> is a parameter: the time value of the date where only the value
  matters, and the address of the \<^verbatim>\<open>Date\<close> object where sharing matters.
\<close>

record ('n, 'd) Card =
  card_id :: string
  state :: CardState
  interval :: 'n
  easeFactor :: 'n
  stepIndex :: int
  dueDate :: 'd

type_synonym date = "real option"

text \<open>The card with another value, possibly of another type, in \<^verbatim>\<open>dueDate\<close>.\<close>

definition set_due :: "('n, 'a) Card \<Rightarrow> 'b \<Rightarrow> ('n, 'b) Card" where
  "set_due c d =
     \<lparr> card_id = card_id c, state = state c, interval = interval c,
       easeFactor = easeFactor c, stepIndex = stepIndex c, dueDate = d \<rparr>"

record 'n SchedulerSettings =
  learningSteps :: "'n list"
  graduatingInterval :: 'n
  easyInterval :: 'n
  startingEase :: 'n
  minEase :: 'n
  easyBonus :: 'n
  hardIntervalMultiplier :: 'n

text \<open>The settings the constructor builds when it is given no overrides.\<close>

definition defaultSettings :: "real SchedulerSettings" where
  "defaultSettings =
     \<lparr> learningSteps = [1, 10],
       graduatingInterval = 1,
       easyInterval = 4,
       startingEase = 2.5,
       minEase = 1.3,
       easyBonus = 1.3,
       hardIntervalMultiplier = 1.2 \<rparr>"

subsection \<open>Helpers\<close>

text \<open>\<^verbatim>\<open>steps[i]\<close>: the entry, or \<open>None\<close> for \<^verbatim>\<open>undefined\<close> outside the bounds.\<close>

definition step_at :: "real list \<Rightarrow> int \<Rightarrow> real option" where
  "step_at steps i =
     (if 0 \<le> i \<and> i < int (length steps) then Some (steps ! nat i) else None)"

text \<open>\<^verbatim>\<open>a || b\<close> on numbers: \<open>b\<close> when \<open>a\<close> is falsy, which for a real is \<open>0\<close>.\<close>

definition or_else :: "real \<Rightarrow> real \<Rightarrow> real" where
  "or_else a b = (if a = 0 then b else a)"

text \<open>\<^verbatim>\<open>card.dueDate = new Date(now.getTime() + minutes * 60000)\<close>\<close>

definition setNextDueMinutes :: "(real, date) Card \<Rightarrow> real option \<Rightarrow> real \<Rightarrow> (real, date) Card" where
  "setNextDueMinutes c minutes now =
     c\<lparr>dueDate := (case minutes of
                         None \<Rightarrow> None
                       | Some m \<Rightarrow> Some (now + m * 60000))\<rparr>"

text \<open>\<^verbatim>\<open>nextDate = new Date(now); nextDate.setDate(nextDate.getDate() + days);
  card.dueDate = nextDate\<close>, with a day of 86400000 milliseconds: what \<^verbatim>\<open>setDate\<close>
  gives for a whole number of days in a zone with a fixed offset, within the range of
  \<^verbatim>\<open>Date\<close>. The translation with calendar dates is \<open>setNextDueDays_js\<close> below.\<close>

definition setNextDueDays :: "(real, date) Card \<Rightarrow> real \<Rightarrow> real \<Rightarrow> (real, date) Card" where
  "setNextDueDays c days now = c\<lparr>dueDate := Some (now + days * 86400000)\<rparr>"

subsection \<open>The learning queues: \<^verbatim>\<open>handleLearning\<close>\<close>

definition handleLearning :: "real SchedulerSettings \<Rightarrow> (real, date) Card \<Rightarrow> Rating \<Rightarrow> real \<Rightarrow> (real, date) Card" where
  "handleLearning settings c rating now =
     (case rating of
        Again \<Rightarrow>
          (let c = c\<lparr>stepIndex := 0\<rparr>
           in setNextDueMinutes c (step_at (learningSteps settings) 0) now)
      | Hard \<Rightarrow>
          setNextDueMinutes c (step_at (learningSteps settings) (stepIndex c)) now
      | Good \<Rightarrow>
          (if stepIndex c < int (length (learningSteps settings)) - 1
           then
             (let c = c\<lparr>stepIndex := stepIndex c + 1\<rparr>;
                  c = setNextDueMinutes c
                           (step_at (learningSteps settings) (stepIndex c)) now
              in c\<lparr>state := Learning\<rparr>)
           else
             (let c = c\<lparr>state := Review\<rparr>;
                  c = c\<lparr>interval := graduatingInterval settings\<rparr>;
                  c = c\<lparr>easeFactor := or_else (easeFactor c) (startingEase settings)\<rparr>
              in setNextDueDays c (interval c) now))
      | Easy \<Rightarrow>
          (let c = c\<lparr>state := Review\<rparr>;
               c = c\<lparr>interval := easyInterval settings\<rparr>;
               c = c\<lparr>easeFactor := or_else (easeFactor c) (startingEase settings)\<rparr>
           in setNextDueDays c (interval c) now))"

subsection \<open>The review phase: \<^verbatim>\<open>handleReview\<close>\<close>

text \<open>
  The \<^verbatim>\<open>switch\<close> updates the card and the two locals \<^verbatim>\<open>newInterval\<close> and
  \<^verbatim>\<open>newEase\<close>; \<open>review_switch\<close> returns the three. The statements after the
  \<^verbatim>\<open>switch\<close> then store the ease, and the interval only if the card is still in
  \<open>Review\<close>. The products and the floor are those of the reals; with the roundings of
  the source they are in \<open>review_switch_js\<close> below.
\<close>

definition review_switch ::
  "real SchedulerSettings \<Rightarrow> (real, date) Card \<Rightarrow> Rating \<Rightarrow> real \<Rightarrow> (real, date) Card \<times> real \<times> real" where
  "review_switch settings c rating now =
     (let newInterval = interval c;
          newEase = easeFactor c
      in case rating of
        Again \<Rightarrow>
          (let c = c\<lparr>state := Relearning\<rparr>;
               c = c\<lparr>stepIndex := 0\<rparr>;
               newEase = max (minEase settings) (newEase - 0.20)
           in (setNextDueMinutes c (step_at (learningSteps settings) 0) now,
               newInterval, newEase))
      | Hard \<Rightarrow>
          (let newInterval =
                 of_int \<lfloor>newInterval * hardIntervalMultiplier settings\<rfloor>;
               newEase = max (minEase settings) (newEase - 0.15)
           in (setNextDueDays c newInterval now, newInterval, newEase))
      | Good \<Rightarrow>
          (let newInterval = of_int \<lfloor>newInterval * newEase\<rfloor>
           in (setNextDueDays c newInterval now, newInterval, newEase))
      | Easy \<Rightarrow>
          (let newInterval = of_int \<lfloor>newInterval * newEase * easyBonus settings\<rfloor>;
               newEase = newEase + 0.15
           in (setNextDueDays c newInterval now, newInterval, newEase)))"

definition handleReview :: "real SchedulerSettings \<Rightarrow> (real, date) Card \<Rightarrow> Rating \<Rightarrow> real \<Rightarrow> (real, date) Card" where
  "handleReview settings c rating now =
     (case review_switch settings c rating now of
        (c, newInterval, newEase) \<Rightarrow>
          (let c = c\<lparr>easeFactor := newEase\<rparr>
           in if state c = Review then c\<lparr>interval := newInterval\<rparr> else c))"

subsection \<open>\<^verbatim>\<open>schedule\<close>\<close>

definition schedule :: "real SchedulerSettings \<Rightarrow> (real, date) Card \<Rightarrow> Rating \<Rightarrow> real \<Rightarrow> (real, date) Card" where
  "schedule settings c rating now =
     (let newCard = c
      in if state newCard = New \<or> state newCard = Learning
         then handleLearning settings newCard rating now
         else if state newCard = Review
         then handleReview settings newCard rating now
         else if state newCard = Relearning
         then handleLearning settings newCard rating now
         else newCard)"

subsection \<open>Records, invariants and repeated calls\<close>

text \<open>
  The invariants on a record that the data model lists: the ease is at least
  \<^verbatim>\<open>minEase\<close>, the interval is not negative, and \<^verbatim>\<open>stepIndex\<close> is an index into
  \<^verbatim>\<open>learningSteps\<close>.
\<close>

definition card_inv :: "real SchedulerSettings \<Rightarrow> (real, 'd) Card \<Rightarrow> bool" where
  "card_inv settings c \<longleftrightarrow>
     minEase settings \<le> easeFactor c \<and> 0 \<le> interval c \<and>
     0 \<le> stepIndex c \<and> stepIndex c < int (length (learningSteps settings))"

text \<open>The same, with the index constrained only in the three learning states.\<close>

definition record_ok :: "real SchedulerSettings \<Rightarrow> (real, 'd) Card \<Rightarrow> bool" where
  "record_ok settings c \<longleftrightarrow>
     minEase settings \<le> easeFactor c \<and> 0 \<le> interval c \<and>
     (state c \<noteq> Review \<longrightarrow>
        0 \<le> stepIndex c \<and> stepIndex c < int (length (learningSteps settings)))"

text \<open>
  The ratings on which \<^verbatim>\<open>handleLearning\<close> moves the card to \<open>Review\<close>: \<open>Easy\<close>, and
  \<open>Good\<close> when the test \<^verbatim>\<open>stepIndex < learningSteps.length - 1\<close> fails, which for a
  valid index means that it is the last one.
\<close>

definition graduates :: "real SchedulerSettings \<Rightarrow> (real, 'd) Card \<Rightarrow> Rating \<Rightarrow> bool" where
  "graduates settings c rating \<longleftrightarrow>
     rating = Easy \<or>
     (rating = Good \<and> \<not> stepIndex c < int (length (learningSteps settings)) - 1)"

text \<open>
  The record of an item that has never been reviewed, as \<^verbatim>\<open>processReview\<close> in
  \<^verbatim>\<open>src/main.ts\<close> builds it from a note without scheduling data: state \<open>New\<close>,
  interval 0, ease 2.5 (the default \<^verbatim>\<open>startingEase\<close>), step 0, due at creation.
\<close>

definition fresh_card :: "string \<Rightarrow> real \<Rightarrow> (real, date) Card" where
  "fresh_card ident t =
     \<lparr> card_id = ident, state = New, interval = 0, easeFactor = 2.5,
       stepIndex = 0, dueDate = Some t \<rparr>"

text \<open>Feeding each result to the next call: one rating and one instant per call.\<close>

fun run :: "real SchedulerSettings \<Rightarrow> (real, date) Card \<Rightarrow> (Rating \<times> real) list \<Rightarrow> (real, date) Card" where
  "run settings c [] = c"
| "run settings c ((rating, now) # rest) = run settings (schedule settings c rating now) rest"

section \<open>The scheduler on a store of objects\<close>

text \<open>
  In the source a card and a date are objects, passed by reference: \<^verbatim>\<open>{ ...card }\<close>
  copies the fields of the card into a new object, so the clone shares the
  \<^verbatim>\<open>Date\<close> object of the original, and the two handlers assign to the fields of the
  clone. This section repeats the translation with the objects in a store: an address is
  an index into the list of objects, \<open>alloc\<close> appends a new object, and an assignment
  to a field replaces the object at its address.
\<close>

datatype obj = CardObj "(real, nat) Card" | DateObj date

type_synonym store = "obj list"

definition alloc :: "store \<Rightarrow> obj \<Rightarrow> store \<times> nat" where
  "alloc st ob = (st @ [ob], length st)"

definition card_at :: "store \<Rightarrow> nat \<Rightarrow> (real, nat) Card option" where
  "card_at st a =
     (if a < length st
      then (case st ! a of CardObj c \<Rightarrow> Some c | DateObj t \<Rightarrow> None)
      else None)"

definition date_at :: "store \<Rightarrow> nat \<Rightarrow> date option" where
  "date_at st a =
     (if a < length st
      then (case st ! a of CardObj c \<Rightarrow> None | DateObj t \<Rightarrow> Some t)
      else None)"

text \<open>\<^verbatim>\<open>card.f = v\<close>: the object at the address is replaced; nothing else changes.\<close>

definition update_card :: "store \<Rightarrow> nat \<Rightarrow> ((real, nat) Card \<Rightarrow> (real, nat) Card) \<Rightarrow> store" where
  "update_card st a f =
     (case card_at st a of Some c \<Rightarrow> st[a := CardObj (f c)] | None \<Rightarrow> st)"

text \<open>\<^verbatim>\<open>d.getTime()\<close>\<close>

definition getTime :: "store \<Rightarrow> nat \<Rightarrow> date" where
  "getTime st a = (case date_at st a of Some t \<Rightarrow> t | None \<Rightarrow> None)"

text \<open>\<^verbatim>\<open>d.setDate(d.getDate() + days)\<close>: the date object is changed in place.\<close>

definition add_days :: "store \<Rightarrow> nat \<Rightarrow> real \<Rightarrow> store" where
  "add_days st a days =
     (case date_at st a of
        Some t \<Rightarrow> st[a := DateObj (map_option (\<lambda>n. n + days * 86400000) t)]
      | None \<Rightarrow> st)"

definition setNextDueMinutes_st :: "store \<Rightarrow> nat \<Rightarrow> real option \<Rightarrow> nat \<Rightarrow> store" where
  "setNextDueMinutes_st st c minutes now =
     (let t = (case getTime st now of
                 None \<Rightarrow> None
               | Some n \<Rightarrow> (case minutes of None \<Rightarrow> None | Some m \<Rightarrow> Some (n + m * 60000)));
          (st, d) = alloc st (DateObj t)
      in update_card st c (\<lambda>x. x\<lparr>dueDate := d\<rparr>))"

definition setNextDueDays_st :: "store \<Rightarrow> nat \<Rightarrow> real \<Rightarrow> nat \<Rightarrow> store" where
  "setNextDueDays_st st c days now =
     (let (st, nextDate) = alloc st (DateObj (getTime st now));
          st = add_days st nextDate days
      in update_card st c (\<lambda>x. x\<lparr>dueDate := nextDate\<rparr>))"

definition handleLearning_st ::
  "real SchedulerSettings \<Rightarrow> store \<Rightarrow> nat \<Rightarrow> Rating \<Rightarrow> nat \<Rightarrow> store" where
  "handleLearning_st settings st c rating now =
     (case rating of
        Again \<Rightarrow>
          (let st = update_card st c (\<lambda>x. x\<lparr>stepIndex := 0\<rparr>)
           in setNextDueMinutes_st st c (step_at (learningSteps settings) 0) now)
      | Hard \<Rightarrow>
          setNextDueMinutes_st st c
            (step_at (learningSteps settings) (stepIndex (the (card_at st c)))) now
      | Good \<Rightarrow>
          (if stepIndex (the (card_at st c)) < int (length (learningSteps settings)) - 1
           then
             (let st = update_card st c (\<lambda>x. x\<lparr>stepIndex := stepIndex x + 1\<rparr>);
                  st = setNextDueMinutes_st st c
                         (step_at (learningSteps settings) (stepIndex (the (card_at st c)))) now
              in update_card st c (\<lambda>x. x\<lparr>state := Learning\<rparr>))
           else
             (let st = update_card st c (\<lambda>x. x\<lparr>state := Review\<rparr>);
                  st = update_card st c
                         (\<lambda>x. x\<lparr>interval := graduatingInterval settings\<rparr>);
                  st = update_card st c
                         (\<lambda>x. x\<lparr>easeFactor := or_else (easeFactor x) (startingEase settings)\<rparr>)
              in setNextDueDays_st st c (interval (the (card_at st c))) now))
      | Easy \<Rightarrow>
          (let st = update_card st c (\<lambda>x. x\<lparr>state := Review\<rparr>);
               st = update_card st c (\<lambda>x. x\<lparr>interval := easyInterval settings\<rparr>);
               st = update_card st c
                      (\<lambda>x. x\<lparr>easeFactor := or_else (easeFactor x) (startingEase settings)\<rparr>)
           in setNextDueDays_st st c (interval (the (card_at st c))) now))"

definition review_switch_st ::
  "real SchedulerSettings \<Rightarrow> store \<Rightarrow> nat \<Rightarrow> Rating \<Rightarrow> nat \<Rightarrow> store \<times> real \<times> real" where
  "review_switch_st settings st c rating now =
     (let newInterval = interval (the (card_at st c));
          newEase = easeFactor (the (card_at st c))
      in case rating of
        Again \<Rightarrow>
          (let st = update_card st c (\<lambda>x. x\<lparr>state := Relearning\<rparr>);
               st = update_card st c (\<lambda>x. x\<lparr>stepIndex := 0\<rparr>);
               newEase = max (minEase settings) (newEase - 0.20)
           in (setNextDueMinutes_st st c (step_at (learningSteps settings) 0) now,
               newInterval, newEase))
      | Hard \<Rightarrow>
          (let newInterval =
                 of_int \<lfloor>newInterval * hardIntervalMultiplier settings\<rfloor>;
               newEase = max (minEase settings) (newEase - 0.15)
           in (setNextDueDays_st st c newInterval now, newInterval, newEase))
      | Good \<Rightarrow>
          (let newInterval = of_int \<lfloor>newInterval * newEase\<rfloor>
           in (setNextDueDays_st st c newInterval now, newInterval, newEase))
      | Easy \<Rightarrow>
          (let newInterval = of_int \<lfloor>newInterval * newEase * easyBonus settings\<rfloor>;
               newEase = newEase + 0.15
           in (setNextDueDays_st st c newInterval now, newInterval, newEase)))"

definition handleReview_st ::
  "real SchedulerSettings \<Rightarrow> store \<Rightarrow> nat \<Rightarrow> Rating \<Rightarrow> nat \<Rightarrow> store" where
  "handleReview_st settings st c rating now =
     (case review_switch_st settings st c rating now of
        (st, newInterval, newEase) \<Rightarrow>
          (let st = update_card st c (\<lambda>x. x\<lparr>easeFactor := newEase\<rparr>)
           in if state (the (card_at st c)) = Review
              then update_card st c (\<lambda>x. x\<lparr>interval := newInterval\<rparr>)
              else st))"

text \<open>
  \<^verbatim>\<open>schedule\<close> gets the addresses of the card and of \<^verbatim>\<open>now\<close>, and returns the
  store after the call with the address of the card it returns.
\<close>

definition schedule_st ::
  "real SchedulerSettings \<Rightarrow> store \<Rightarrow> nat \<Rightarrow> Rating \<Rightarrow> nat \<Rightarrow> store \<times> nat" where
  "schedule_st settings st c rating now =
     (let (st, newCard) = alloc st (CardObj (the (card_at st c)))
      in if state (the (card_at st newCard)) = New \<or>
            state (the (card_at st newCard)) = Learning
         then (handleLearning_st settings st newCard rating now, newCard)
         else if state (the (card_at st newCard)) = Review
         then (handleReview_st settings st newCard rating now, newCard)
         else if state (the (card_at st newCard)) = Relearning
         then (handleLearning_st settings st newCard rating now, newCard)
         else (st, newCard))"

text \<open>What a card object stands for: its fields, with the time value of its date.\<close>

definition value_of :: "store \<Rightarrow> nat \<Rightarrow> (real, date) Card option" where
  "value_of st a =
     (case card_at st a of
        None \<Rightarrow> None
      | Some c \<Rightarrow> Some (set_due c (getTime st (dueDate c))))"

section \<open>The scheduler on doubles and calendar dates\<close>

text \<open>
  The translation above takes a number as a real and a day as 86400000 milliseconds. The
  source computes with IEEE 754 doubles, and \<^verbatim>\<open>setNextDueDays\<close> moves a date with
  \<^verbatim>\<open>setDate\<close>, on the calendar of the local time zone. This section repeats the
  translation with both: a number is a \<open>double\<close>, every arithmetic operation rounds to
  the nearest double, and a date is its time value, built and moved as the language
  specification (ECMA-262) says. It is the translation for the properties that speak of
  the interval a review computes and of a due date in days.
\<close>

subsection \<open>Doubles\<close>

text \<open>
  A double is a finite number, an infinity or \<^verbatim>\<open>NaN\<close>. The finite numbers that occur
  are the values of doubles; the two zeros are not distinguished, since the source never
  divides. \<open>round64\<close> rounds a real to the nearest double, ties to the even
  significand: \<open>pow2 (ulp_exp y)\<close> is the distance between the doubles around \<open>y\<close>
  (53 bits of significand, the least exponent -1074 for the subnormal numbers), \<open>rhe\<close>
  rounds the quotient to the nearest whole number, and a result of \<open>2^1024\<close> or more is
  an infinity.
\<close>

datatype double = Fin real | PInf | NInf | NaN

definition pow2 :: "int \<Rightarrow> real" where
  "pow2 e = (if 0 \<le> e then 2 ^ nat e else 1 / 2 ^ nat (- e))"

definition rhe :: "real \<Rightarrow> int" where
  "rhe x =
     (let f = \<lfloor>x\<rfloor>; r = x - of_int f
      in if r < 1 / 2 then f
         else if 1 / 2 < r then f + 1
         else if even f then f else f + 1)"

definition ulp_exp :: "real \<Rightarrow> int" where
  "ulp_exp y = max (bitlen \<lfloor>y * pow2 1074\<rfloor> - 53) 0 - 1074"

definition round_pos :: "real \<Rightarrow> double" where
  "round_pos y =
     (let e = ulp_exp y;
          r = of_int (rhe (y / pow2 e)) * pow2 e
      in if 2 ^ 1024 \<le> r then PInf else Fin r)"

definition dneg :: "double \<Rightarrow> double" where
  "dneg a = (case a of Fin x \<Rightarrow> Fin (- x) | PInf \<Rightarrow> NInf | NInf \<Rightarrow> PInf | NaN \<Rightarrow> NaN)"

definition round64 :: "real \<Rightarrow> double" where
  "round64 x =
     (if x = 0 then Fin 0
      else if 0 < x then round_pos x
      else dneg (round_pos (- x)))"

text \<open>\<^verbatim>\<open>a <= b\<close>, which is false when one of the two is \<^verbatim>\<open>NaN\<close>.\<close>

definition dle :: "double \<Rightarrow> double \<Rightarrow> bool" where
  "dle a b =
     (case (a, b) of
        (NaN, _) \<Rightarrow> False
      | (_, NaN) \<Rightarrow> False
      | (NInf, _) \<Rightarrow> True
      | (_, PInf) \<Rightarrow> True
      | (Fin x, Fin y) \<Rightarrow> x \<le> y
      | _ \<Rightarrow> False)"

text \<open>The significand of the double nearest to a positive \<open>y\<close>, as a whole number.\<close>

definition signif :: "real \<Rightarrow> int" where
  "signif y = rhe (y / pow2 (ulp_exp y))"

text \<open>A decimal literal of the source denotes the nearest double.\<close>

definition lit :: "real \<Rightarrow> double" where
  "lit x = round64 x"

definition dsgn :: "double \<Rightarrow> int" where
  "dsgn a =
     (case a of
        Fin x \<Rightarrow> (if x = 0 then 0 else if 0 < x then 1 else - 1)
      | PInf \<Rightarrow> 1
      | NInf \<Rightarrow> - 1
      | NaN \<Rightarrow> 0)"

text \<open>\<^verbatim>\<open>a * b\<close>\<close>

definition dmul :: "double \<Rightarrow> double \<Rightarrow> double" where
  "dmul a b =
     (case (a, b) of
        (Fin x, Fin y) \<Rightarrow> round64 (x * y)
      | _ \<Rightarrow>
          if a = NaN \<or> b = NaN \<or> dsgn a * dsgn b = 0 then NaN
          else if 0 < dsgn a * dsgn b then PInf
          else NInf)"

text \<open>\<^verbatim>\<open>a + b\<close>\<close>

definition dadd :: "double \<Rightarrow> double \<Rightarrow> double" where
  "dadd a b =
     (case (a, b) of
        (Fin x, Fin y) \<Rightarrow> round64 (x + y)
      | _ \<Rightarrow>
          if a = NaN \<or> b = NaN \<or> (a = PInf \<and> b = NInf) \<or> (a = NInf \<and> b = PInf) then NaN
          else if a = PInf \<or> b = PInf then PInf
          else NInf)"

text \<open>\<^verbatim>\<open>a - b\<close>\<close>

definition dsub :: "double \<Rightarrow> double \<Rightarrow> double" where
  "dsub a b = dadd a (dneg b)"

text \<open>\<^verbatim>\<open>Math.floor(a)\<close>\<close>

definition dfloor :: "double \<Rightarrow> double" where
  "dfloor a = (case a of Fin x \<Rightarrow> Fin (of_int \<lfloor>x\<rfloor>) | _ \<Rightarrow> a)"

text \<open>\<^verbatim>\<open>Math.max(a, b)\<close>\<close>

definition dmax :: "double \<Rightarrow> double \<Rightarrow> double" where
  "dmax a b = (if a = NaN \<or> b = NaN then NaN else if dle a b then b else a)"

text \<open>A number is falsy when it is zero or \<^verbatim>\<open>NaN\<close>.\<close>

definition truthy :: "double \<Rightarrow> bool" where
  "truthy a \<longleftrightarrow> a \<noteq> NaN \<and> a \<noteq> Fin 0"

definition or_else_js :: "double \<Rightarrow> double \<Rightarrow> double" where
  "or_else_js a b = (if truthy a then a else b)"

subsection \<open>Dates\<close>

text \<open>
  The time value of a \<^verbatim>\<open>Date\<close> is a whole number of milliseconds since the epoch, of
  magnitude at most \<open>8.64e15\<close>, or \<^verbatim>\<open>NaN\<close> for an invalid date, which is \<open>None\<close>
  here. The operations are those of the language specification (ECMA-262), under its
  names.
\<close>

type_synonym time_value = "int option"

definition msPerDay :: int where
  "msPerDay = 86400000"

definition maxTime :: int where
  "maxTime = 8640000000000000"

definition valid_time :: "int \<Rightarrow> bool" where
  "valid_time t \<longleftrightarrow> \<bar>t\<bar> \<le> maxTime"

text \<open>Truncation towards zero, as \<^verbatim>\<open>ToIntegerOrInfinity\<close> does on a finite number.\<close>

definition trunc :: "real \<Rightarrow> int" where
  "trunc x = (if 0 \<le> x then \<lfloor>x\<rfloor> else \<lceil>x\<rceil>)"

text \<open>\<^verbatim>\<open>TimeClip\<close> on a number, which is what \<^verbatim>\<open>new Date(number)\<close> stores.\<close>

definition TimeClip :: "double \<Rightarrow> time_value" where
  "TimeClip v =
     (case v of
        Fin x \<Rightarrow> if \<bar>x\<bar> \<le> of_int maxTime then Some (trunc x) else None
      | _ \<Rightarrow> None)"

text \<open>\<^verbatim>\<open>TimeClip\<close> on a value that is a whole number already.\<close>

definition clip :: "int \<Rightarrow> time_value" where
  "clip v = (if \<bar>v\<bar> \<le> maxTime then Some v else None)"

definition Day :: "int \<Rightarrow> int" where
  "Day t = t div msPerDay"

definition TimeWithinDay :: "int \<Rightarrow> int" where
  "TimeWithinDay t = t mod msPerDay"

text \<open>
  \<^verbatim>\<open>DateFromTime\<close>, the day of the month in the proleptic Gregorian calendar. Day
  10957 is 1 January 2000, the calendar repeats every 146097 days, and the day is found
  by walking through the years and then the months of that cycle.
\<close>

definition leap :: "int \<Rightarrow> bool" where
  "leap y \<longleftrightarrow> y mod 4 = 0 \<and> (y mod 100 \<noteq> 0 \<or> y mod 400 = 0)"

definition days_in_year :: "int \<Rightarrow> int" where
  "days_in_year y = (if leap y then 366 else 365)"

function year_from :: "int \<Rightarrow> int \<Rightarrow> int \<times> int" where
  "year_from d y =
     (if days_in_year y \<le> d then year_from (d - days_in_year y) (y + 1) else (d, y))"
  by pat_completeness auto
termination
  by (relation "measure (\<lambda>(d, y). nat d)") (auto simp: days_in_year_def split: if_splits)

fun date_in_year :: "int \<Rightarrow> int list \<Rightarrow> int" where
  "date_in_year d [] = d + 1"
| "date_in_year d (l # ls) = (if d < l then d + 1 else date_in_year (d - l) ls)"

definition month_lengths :: "int \<Rightarrow> int list" where
  "month_lengths y = [31, if leap y then 29 else 28, 31, 30, 31, 30, 31, 31, 30, 31, 30, 31]"

definition DateFromTime :: "int \<Rightarrow> int" where
  "DateFromTime t =
     (case year_from ((Day t - 10957) mod 146097) 2000 of
        (d, y) \<Rightarrow> date_in_year d (month_lengths y))"

text \<open>
  The time zone is the host's: \<^verbatim>\<open>LocalTZA(t, isUTC)\<close> is the offset of local time
  in milliseconds, at the instant \<open>t\<close> when \<open>isUTC\<close> holds and at the local time \<open>t\<close>
  otherwise. It is a parameter of the model.
\<close>

record Host =
  LocalTZA :: "int \<Rightarrow> bool \<Rightarrow> int"

definition LocalTime :: "Host \<Rightarrow> int \<Rightarrow> int" where
  "LocalTime h t = t + LocalTZA h t True"

definition UTC :: "Host \<Rightarrow> int \<Rightarrow> int" where
  "UTC h t = t - LocalTZA h t False"

text \<open>
  \<^verbatim>\<open>d.setDate(date)\<close> on a valid date with time value \<open>t\<close>: the new time value.
  \<^verbatim>\<open>MakeDay\<close> gives \<^verbatim>\<open>NaN\<close> for an argument that is not finite, and otherwise the
  day number of the first of the month of the local time, plus the truncated argument,
  minus one; \<^verbatim>\<open>MakeDate\<close> adds the time within the day, and the result is converted
  back from local time and clipped. The first of the month is \<open>DateFromTime - 1\<close> days
  before the day of the local time. The day number and the time value are computed
  exactly: a rounding can only occur beyond \<open>2^53\<close>, which is outside the range of
  \<^verbatim>\<open>Date\<close> by more than any offset of a time zone.
\<close>

definition setDate :: "Host \<Rightarrow> int \<Rightarrow> double \<Rightarrow> time_value" where
  "setDate h t date =
     (case date of
        Fin x \<Rightarrow>
          (let t = LocalTime h t;
               first = Day t - (DateFromTime t - 1);
               day = first + trunc x - 1;
               newDate = day * msPerDay + TimeWithinDay t
           in clip (UTC h newDate))
      | _ \<Rightarrow> None)"

text \<open>\<^verbatim>\<open>d.getDate()\<close> on a valid date with time value \<open>t\<close>.\<close>

definition getDate :: "Host \<Rightarrow> int \<Rightarrow> double" where
  "getDate h t = Fin (of_int (DateFromTime (LocalTime h t)))"

text \<open>The date that reads the same local time \<open>n\<close> days after \<open>t\<close>, if it is in range.\<close>

definition days_later :: "Host \<Rightarrow> int \<Rightarrow> int \<Rightarrow> time_value" where
  "days_later h t n = clip (UTC h (LocalTime h t + n * msPerDay))"

subsection \<open>The scheduler\<close>

text \<open>\<^verbatim>\<open>steps[i]\<close> in arithmetic: the entry, or \<^verbatim>\<open>NaN\<close> for \<^verbatim>\<open>undefined\<close>.\<close>

definition step_at_js :: "double list \<Rightarrow> int \<Rightarrow> double" where
  "step_at_js steps i = (if 0 \<le> i \<and> i < int (length steps) then steps ! nat i else NaN)"

definition setNextDueMinutes_js ::
  "(double, time_value) Card \<Rightarrow> double \<Rightarrow> int \<Rightarrow> (double, time_value) Card" where
  "setNextDueMinutes_js c minutes now =
     c\<lparr>dueDate := TimeClip (dadd (Fin (of_int now)) (dmul minutes (Fin 60000)))\<rparr>"

definition setNextDueDays_js ::
  "Host \<Rightarrow> (double, time_value) Card \<Rightarrow> double \<Rightarrow> int \<Rightarrow> (double, time_value) Card" where
  "setNextDueDays_js h c days now =
     (let nextDate = now;
          nextDate = setDate h nextDate (dadd (getDate h nextDate) days)
      in c\<lparr>dueDate := nextDate\<rparr>)"

definition handleLearning_js ::
  "Host \<Rightarrow> double SchedulerSettings \<Rightarrow> (double, time_value) Card \<Rightarrow> Rating \<Rightarrow> int \<Rightarrow>
   (double, time_value) Card" where
  "handleLearning_js h settings c rating now =
     (case rating of
        Again \<Rightarrow>
          (let c = c\<lparr>stepIndex := 0\<rparr>
           in setNextDueMinutes_js c (step_at_js (learningSteps settings) 0) now)
      | Hard \<Rightarrow>
          setNextDueMinutes_js c (step_at_js (learningSteps settings) (stepIndex c)) now
      | Good \<Rightarrow>
          (if stepIndex c < int (length (learningSteps settings)) - 1
           then
             (let c = c\<lparr>stepIndex := stepIndex c + 1\<rparr>;
                  c = setNextDueMinutes_js c
                        (step_at_js (learningSteps settings) (stepIndex c)) now
              in c\<lparr>state := Learning\<rparr>)
           else
             (let c = c\<lparr>state := Review\<rparr>;
                  c = c\<lparr>interval := graduatingInterval settings\<rparr>;
                  c = c\<lparr>easeFactor := or_else_js (easeFactor c) (startingEase settings)\<rparr>
              in setNextDueDays_js h c (interval c) now))
      | Easy \<Rightarrow>
          (let c = c\<lparr>state := Review\<rparr>;
               c = c\<lparr>interval := easyInterval settings\<rparr>;
               c = c\<lparr>easeFactor := or_else_js (easeFactor c) (startingEase settings)\<rparr>
           in setNextDueDays_js h c (interval c) now))"

definition review_switch_js ::
  "Host \<Rightarrow> double SchedulerSettings \<Rightarrow> (double, time_value) Card \<Rightarrow> Rating \<Rightarrow> int \<Rightarrow>
   (double, time_value) Card \<times> double \<times> double" where
  "review_switch_js h settings c rating now =
     (let newInterval = interval c;
          newEase = easeFactor c
      in case rating of
        Again \<Rightarrow>
          (let c = c\<lparr>state := Relearning\<rparr>;
               c = c\<lparr>stepIndex := 0\<rparr>;
               newEase = dmax (minEase settings) (dsub newEase (lit 0.20))
           in (setNextDueMinutes_js c (step_at_js (learningSteps settings) 0) now,
               newInterval, newEase))
      | Hard \<Rightarrow>
          (let newInterval = dfloor (dmul newInterval (hardIntervalMultiplier settings));
               newEase = dmax (minEase settings) (dsub newEase (lit 0.15))
           in (setNextDueDays_js h c newInterval now, newInterval, newEase))
      | Good \<Rightarrow>
          (let newInterval = dfloor (dmul newInterval newEase)
           in (setNextDueDays_js h c newInterval now, newInterval, newEase))
      | Easy \<Rightarrow>
          (let newInterval = dfloor (dmul (dmul newInterval newEase) (easyBonus settings));
               newEase = dadd newEase (lit 0.15)
           in (setNextDueDays_js h c newInterval now, newInterval, newEase)))"

definition handleReview_js ::
  "Host \<Rightarrow> double SchedulerSettings \<Rightarrow> (double, time_value) Card \<Rightarrow> Rating \<Rightarrow> int \<Rightarrow>
   (double, time_value) Card" where
  "handleReview_js h settings c rating now =
     (case review_switch_js h settings c rating now of
        (c, newInterval, newEase) \<Rightarrow>
          (let c = c\<lparr>easeFactor := newEase\<rparr>
           in if state c = Review then c\<lparr>interval := newInterval\<rparr> else c))"

definition schedule_js ::
  "Host \<Rightarrow> double SchedulerSettings \<Rightarrow> (double, time_value) Card \<Rightarrow> Rating \<Rightarrow> int \<Rightarrow>
   (double, time_value) Card" where
  "schedule_js h settings c rating now =
     (let newCard = c
      in if state newCard = New \<or> state newCard = Learning
         then handleLearning_js h settings newCard rating now
         else if state newCard = Review
         then handleReview_js h settings newCard rating now
         else if state newCard = Relearning
         then handleLearning_js h settings newCard rating now
         else newCard)"

text \<open>The settings of the constructor, with the literals as doubles.\<close>

definition defaultSettings_js :: "double SchedulerSettings" where
  "defaultSettings_js =
     \<lparr> learningSteps = [lit 1, lit 10],
       graduatingInterval = lit 1,
       easyInterval = lit 4,
       startingEase = lit 2.5,
       minEase = lit 1.3,
       easyBonus = lit 1.3,
       hardIntervalMultiplier = lit 1.2 \<rparr>"

subsection \<open>Hosts\<close>

text \<open>A host in a zone with a fixed offset; the offset 0 is UTC.\<close>

definition fixed_zone :: "int \<Rightarrow> Host" where
  "fixed_zone off = \<lparr> LocalTZA = (\<lambda>t isUTC. off) \<rparr>"

text \<open>
  A host in a zone whose offset changes once, at the instant \<open>change\<close>, from
  \<open>off1\<close> to \<open>off2\<close>. A local time that occurs twice or not at all is read with
  the offset before the change, as the specification says.
\<close>

definition changing_zone :: "int \<Rightarrow> int \<Rightarrow> int \<Rightarrow> Host" where
  "changing_zone change off1 off2 =
     \<lparr> LocalTZA = (\<lambda>t isUTC.
         if isUTC then (if t < change then off1 else off2)
         else (if t < change + max off1 off2 then off1 else off2)) \<rparr>"

subsection \<open>Conditions on records, hosts and due dates\<close>






section \<open>Example records\<close>

text \<open>
  The records of the scenarios of the specification, under the name of a note, and a
  configuration that overrides \<^verbatim>\<open>graduatingInterval\<close> with a negative number.
\<close>

definition new_card :: "(real, date) Card" where
  "new_card =
     \<lparr> card_id = ''note.md'', state = New, interval = 0, easeFactor = 2.5,
       stepIndex = 0, dueDate = Some 0 \<rparr>"



definition relapsed_card :: "(real, date) Card" where
  "relapsed_card =
     \<lparr> card_id = ''note.md'', state = Relearning, interval = 10, easeFactor = 2.3,
       stepIndex = 1, dueDate = Some 0 \<rparr>"


text \<open>A store with a date, a card that is due at that date, and the date of \<^verbatim>\<open>now\<close>.\<close>

definition stored_card :: "(real, nat) Card" where
  "stored_card =
     \<lparr> card_id = ''note.md'', state = Review, interval = 10, easeFactor = 2.5,
       stepIndex = 0, dueDate = 0 \<rparr>"

definition example_store :: store where
  "example_store = [DateObj (Some 5), CardObj stored_card, DateObj (Some 1000)]"

subsection \<open>Example records, settings and hosts\<close>

text \<open>The records of the scenarios, with doubles in their fields.\<close>

definition new_card_js :: "(double, time_value) Card" where
  "new_card_js =
     \<lparr> card_id = ''note.md'', state = New, interval = Fin 0, easeFactor = Fin 2.5,
       stepIndex = 0, dueDate = Some 0 \<rparr>"

definition last_step_card_js :: "(double, time_value) Card" where
  "last_step_card_js =
     \<lparr> card_id = ''note.md'', state = Learning, interval = Fin 0, easeFactor = Fin 2.5,
       stepIndex = 1, dueDate = Some 0 \<rparr>"

definition review_card_js :: "(double, time_value) Card" where
  "review_card_js =
     \<lparr> card_id = ''note.md'', state = Review, interval = Fin 10, easeFactor = Fin 2.5,
       stepIndex = 0, dueDate = Some 0 \<rparr>"

text \<open>Reviewed cards with an interval of a hundred million days, and of no days.\<close>

definition long_interval_card :: "(double, time_value) Card" where
  "long_interval_card = review_card_js\<lparr>interval := Fin 100000000\<rparr>"


text \<open>
  Settings that override \<^verbatim>\<open>graduatingInterval\<close> with 1.5, and with -1, and settings
  whose second learning step is \<open>2^-20\<close> minutes.
\<close>

definition fractional_settings :: "double SchedulerSettings" where
  "fractional_settings = defaultSettings_js\<lparr>graduatingInterval := Fin 1.5\<rparr>"


definition short_step_settings :: "double SchedulerSettings" where
  "short_step_settings = defaultSettings_js\<lparr>learningSteps := [Fin 1, Fin (1 / 1048576)]\<rparr>"

text \<open>
  Hosts: UTC, and New York around its two clock changes of 2026, on 8 March at 07:00 UTC
  (from five to four hours behind UTC) and on 1 November at 06:00 UTC (back to five).
\<close>

definition utc :: Host where
  "utc = fixed_zone 0"

definition new_york_spring :: Host where
  "new_york_spring = changing_zone 1772953200000 (- 18000000) (- 14400000)"


section \<open>Properties\<close>

subsection \<open>Auxiliary facts\<close>

lemmas sched_defs = schedule_def handleLearning_def handleReview_def review_switch_def
  setNextDueMinutes_def setNextDueDays_def step_at_def or_else_def Let_def

lemma schedule_learning:
  "state c \<noteq> Review \<Longrightarrow> schedule s c rating now = handleLearning s c rating now"
  by (cases "state c") (simp_all add: schedule_def)


lemma schedule_card_id: "card_id (schedule s c rating now) = card_id c"
  by (cases rating; cases "state c") (simp_all add: sched_defs)

text \<open>
  One call keeps the invariants, when no setting is negative and the starting ease is not
  below the minimum.
\<close>

lemma schedule_keeps_inv:
  assumes inv: "card_inv s c"
    and cfg: "0 \<le> graduatingInterval s" "0 \<le> easyInterval s"
      "0 \<le> hardIntervalMultiplier s" "0 \<le> easyBonus s"
      "0 \<le> minEase s" "minEase s \<le> startingEase s"
  shows "card_inv s (schedule s c rating now)"
proof (cases "state c = Review")
  case True
  from inv cfg have e0: "0 \<le> easeFactor c" and i0: "0 \<le> interval c"
    by (auto simp: card_inv_def)
  show ?thesis
  proof (cases rating)
    case Again
    with True inv show ?thesis by (auto simp: sched_defs card_inv_def)
  next
    case Hard
    with True inv cfg i0 show ?thesis by (simp add: sched_defs card_inv_def)
  next
    case Good
    with True inv cfg i0 e0 show ?thesis by (simp add: sched_defs card_inv_def)
  next
    case Easy
    with True inv cfg i0 e0 show ?thesis by (simp add: sched_defs card_inv_def)
  qed
next
  case False
  then have eq: "schedule s c r now = handleLearning s c r now" for r
    by (rule schedule_learning)
  show ?thesis
  proof (cases rating)
    case Again
    with inv show ?thesis
      by (auto simp: eq handleLearning_def setNextDueMinutes_def Let_def card_inv_def)
  next
    case Hard
    with inv show ?thesis
      by (auto simp: eq handleLearning_def setNextDueMinutes_def card_inv_def)
  next
    case Good
    with inv cfg show ?thesis
      by (auto simp: eq handleLearning_def setNextDueMinutes_def setNextDueDays_def
          or_else_def Let_def card_inv_def)
  next
    case Easy
    with inv cfg show ?thesis
      by (auto simp: eq handleLearning_def setNextDueDays_def or_else_def Let_def card_inv_def)
  qed
qed

lemma run_keeps_inv:
  assumes cfg: "0 \<le> graduatingInterval s" "0 \<le> easyInterval s"
      "0 \<le> hardIntervalMultiplier s" "0 \<le> easyBonus s"
      "0 \<le> minEase s" "minEase s \<le> startingEase s"
  shows "card_inv s c \<Longrightarrow> card_inv s (run s c calls)"
proof (induction calls arbitrary: c)
  case Nil
  then show ?case by simp
next
  case (Cons call calls)
  obtain rating now where call: "call = (rating, now)" by (cases call)
  from Cons.prems cfg have "card_inv s (schedule s c rating now)"
    by (rule schedule_keeps_inv)
  then have "card_inv s (run s (schedule s c rating now) calls)" by (rule Cons.IH)
  then show ?case by (simp add: call)
qed

lemma card_inv_record_ok: "card_inv s c \<Longrightarrow> record_ok s c"
  by (simp add: card_inv_def record_ok_def)

subsection \<open>Bounds on ease and interval\<close>




subsection \<open>A failed review\<close>



subsection \<open>Repeated calls\<close>

text \<open>
  Claim C4. With the default configuration, every record reached from a freshly created
  record (state \<open>New\<close>, interval 0, ease 2.5, step 0) by any finite sequence of calls of
  \<^verbatim>\<open>schedule\<close>, each with its rating and its instant and each on the result of the
  call before, has an ease of at least \<^verbatim>\<open>minEase\<close>, an interval that is not negative
  and, in the three learning states, a step index that is a valid index into
  \<^verbatim>\<open>learningSteps\<close>.
\<close>

theorem run_record_ok:
  "record_ok defaultSettings (run defaultSettings (fresh_card ident t) calls)"
proof -
  have "card_inv defaultSettings (fresh_card ident t)"
    by (simp add: card_inv_def fresh_card_def defaultSettings_def)
  then have "card_inv defaultSettings (run defaultSettings (fresh_card ident t) calls)"
    by (rule run_keeps_inv [rotated -1]) (simp_all add: defaultSettings_def)
  then show ?thesis by (rule card_inv_record_ok)
qed

text \<open>
  Three calls that graduate a fresh record and fail the first review: the result is in
  state \<open>Relearning\<close>, where the condition on the step index applies, at step 0.
\<close>

theorem run_record_ok_witness:
  "state (run defaultSettings (fresh_card ''note.md'' 0)
            [(Good, 1000), (Good, 2000), (Again, 3000)]) \<noteq> Review \<and>
   stepIndex (run defaultSettings (fresh_card ''note.md'' 0)
            [(Good, 1000), (Good, 2000), (Again, 3000)]) = 0 \<and>
   record_ok defaultSettings
     (run defaultSettings (fresh_card ''note.md'' 0)
        [(Good, 1000), (Good, 2000), (Again, 3000)])"
  using run_record_ok [of "''note.md''" 0 "[(Good, 1000), (Good, 2000), (Again, 3000)]"]
  by (simp add: fresh_card_def defaultSettings_def sched_defs)

subsection \<open>The ease on graduation\<close>

text \<open>
  Claim C7. When a record in a learning state (\<open>New\<close>, \<open>Learning\<close>, \<open>Relearning\<close>)
  graduates, by \<open>Good\<close> at the last learning step or by \<open>Easy\<close>, the result is in state
  \<open>Review\<close> and its ease is the ease of the input when that is set (not 0, the falsy
  number), and \<^verbatim>\<open>startingEase\<close> otherwise. So a record in state \<open>Relearning\<close> keeps
  the ease it got at its relapse.
\<close>

theorem graduation_ease:
  assumes "state c \<noteq> Review"
    and "(rating = Good \<and> stepIndex c = int (length (learningSteps s)) - 1) \<or> rating = Easy"
  shows "state (schedule s c rating now) = Review \<and>
         easeFactor (schedule s c rating now) =
           (if easeFactor c \<noteq> 0 then easeFactor c else startingEase s)"
  using assms
  by (auto simp: schedule_learning handleLearning_def setNextDueDays_def or_else_def Let_def)

text \<open>
  A relapsed card with ease 2.3 at the last learning step, rated \<open>Good\<close> with the default
  configuration: it graduates with ease 2.3, not with the starting ease 2.5.
\<close>

theorem graduation_ease_witness:
  "state relapsed_card \<noteq> Review \<and>
   stepIndex relapsed_card = int (length (learningSteps defaultSettings)) - 1 \<and>
   state (schedule defaultSettings relapsed_card Good 1000) = Review \<and>
   easeFactor (schedule defaultSettings relapsed_card Good 1000) = 2.3 \<and>
   startingEase defaultSettings = 2.5"
  using graduation_ease [of relapsed_card Good defaultSettings 1000]
  by (simp add: defaultSettings_def relapsed_card_def)

subsection \<open>Failed and hard learning steps\<close>

text \<open>
  Claim C9. For every record in a learning state (\<open>New\<close>, \<open>Learning\<close>, \<open>Relearning\<close>)
  rated \<open>Again\<close> (Fail) or \<open>Hard\<close>, \<^verbatim>\<open>schedule\<close> changes at most the step index and
  the due date: the result is the input with these two fields replaced, so its state,
  interval and ease are those of the input. A record in state \<open>New\<close> stays in state
  \<open>New\<close>.
\<close>

theorem learning_again_hard_frame:
  assumes "state c \<noteq> Review" and "rating = Again \<or> rating = Hard"
  shows "schedule s c rating now =
           c\<lparr>stepIndex := stepIndex (schedule s c rating now),
             dueDate := dueDate (schedule s c rating now)\<rparr> \<and>
         state (schedule s c rating now) = state c \<and>
         interval (schedule s c rating now) = interval c \<and>
         easeFactor (schedule s c rating now) = easeFactor c"
  using assms
  by (auto simp: schedule_learning handleLearning_def setNextDueMinutes_def Let_def)

text \<open>A new card rated \<open>Hard\<close>, and rated \<open>Again\<close>, with the default configuration.\<close>

theorem learning_again_hard_frame_witness:
  "state new_card \<noteq> Review \<and>
   state (schedule defaultSettings new_card Hard 1000) = New \<and>
   interval (schedule defaultSettings new_card Hard 1000) = 0 \<and>
   easeFactor (schedule defaultSettings new_card Hard 1000) = 2.5 \<and>
   state (schedule defaultSettings new_card Again 1000) = New \<and>
   interval (schedule defaultSettings new_card Again 1000) = 0 \<and>
   easeFactor (schedule defaultSettings new_card Again 1000) = 2.5"
  using learning_again_hard_frame [of new_card Hard defaultSettings 1000]
    learning_again_hard_frame [of new_card Again defaultSettings 1000]
  by (simp add: new_card_def)

subsection \<open>The interval of a card in a learning state\<close>

text \<open>
  One call on a card in a learning state, with another interval in the input: a rating
  that graduates the card gives the same result, and any other rating gives the same
  result but for the interval, which is the one of the input, and leaves the card in a
  learning state.
\<close>

lemma schedule_other_interval:
  assumes "state c \<noteq> Review"
  shows "(graduates s c rating \<longrightarrow>
            schedule s (c\<lparr>interval := j\<rparr>) rating now = schedule s c rating now) \<and>
         (\<not> graduates s c rating \<longrightarrow>
            state (schedule s c rating now) \<noteq> Review \<and>
            schedule s (c\<lparr>interval := j\<rparr>) rating now =
              (schedule s c rating now)\<lparr>interval := j\<rparr>)"
  using assms
  by (cases rating)
    (simp_all add: schedule_learning handleLearning_def setNextDueMinutes_def
      setNextDueDays_def graduates_def Let_def)

lemma run_other_interval:
  "state c \<noteq> Review \<Longrightarrow>
   run s (c\<lparr>interval := j\<rparr>) calls = run s c calls \<or>
   (state (run s c calls) \<noteq> Review \<and>
    run s (c\<lparr>interval := j\<rparr>) calls = (run s c calls)\<lparr>interval := j\<rparr>)"
proof (induction calls arbitrary: c)
  case Nil
  then show ?case by simp
next
  case (Cons call calls)
  obtain rating now where call: "call = (rating, now)" by (cases call)
  note step = schedule_other_interval [OF Cons.prems, of s rating j now]
  show ?case
  proof (cases "graduates s c rating")
    case True
    with step show ?thesis by (simp add: call)
  next
    case False
    with step have st: "state (schedule s c rating now) \<noteq> Review"
      and eq: "schedule s (c\<lparr>interval := j\<rparr>) rating now =
               (schedule s c rating now)\<lparr>interval := j\<rparr>"
      by simp_all
    from Cons.IH [OF st] show ?thesis by (simp add: call eq)
  qed
qed

text \<open>
  Claim C10. For two records in a learning state (\<open>New\<close>, \<open>Learning\<close>, \<open>Relearning\<close>)
  that differ in the interval only, the two results of \<^verbatim>\<open>schedule\<close> differ in the
  interval at most: they are equal once their intervals are set to the same value. On a
  rating that graduates the card (\<open>Easy\<close>, or \<open>Good\<close> at the last step) the two results
  are equal; on any other rating each result has the interval of its input. So after any
  sequence of calls the two records are equal, or they are still in a learning state and
  differ in the interval only.
\<close>

theorem learning_interval_independent:
  assumes "state c \<noteq> Review"
  shows "(schedule s (c\<lparr>interval := i1\<rparr>) rating now)\<lparr>interval := i\<rparr> =
         (schedule s (c\<lparr>interval := i2\<rparr>) rating now)\<lparr>interval := i\<rparr> \<and>
         (graduates s c rating \<longrightarrow>
            schedule s (c\<lparr>interval := i1\<rparr>) rating now =
            schedule s (c\<lparr>interval := i2\<rparr>) rating now) \<and>
         (\<not> graduates s c rating \<longrightarrow>
            interval (schedule s (c\<lparr>interval := i1\<rparr>) rating now) = i1 \<and>
            interval (schedule s (c\<lparr>interval := i2\<rparr>) rating now) = i2) \<and>
         (run s (c\<lparr>interval := i1\<rparr>) calls = run s (c\<lparr>interval := i2\<rparr>) calls \<or>
          (state (run s (c\<lparr>interval := i1\<rparr>) calls) \<noteq> Review \<and>
           state (run s (c\<lparr>interval := i2\<rparr>) calls) \<noteq> Review \<and>
           (run s (c\<lparr>interval := i1\<rparr>) calls)\<lparr>interval := i\<rparr> =
           (run s (c\<lparr>interval := i2\<rparr>) calls)\<lparr>interval := i\<rparr>))"
proof -
  have one: "(schedule s (c\<lparr>interval := i1\<rparr>) rating now)\<lparr>interval := i\<rparr> =
             (schedule s (c\<lparr>interval := i2\<rparr>) rating now)\<lparr>interval := i\<rparr>"
    and grad: "graduates s c rating \<longrightarrow>
            schedule s (c\<lparr>interval := i1\<rparr>) rating now =
            schedule s (c\<lparr>interval := i2\<rparr>) rating now"
    and copy: "\<not> graduates s c rating \<longrightarrow>
            interval (schedule s (c\<lparr>interval := i1\<rparr>) rating now) = i1 \<and>
            interval (schedule s (c\<lparr>interval := i2\<rparr>) rating now) = i2"
    using assms
    by (cases rating;
        simp add: schedule_learning handleLearning_def setNextDueMinutes_def
          setNextDueDays_def graduates_def Let_def)+
  from assms have c1: "state (c\<lparr>interval := i1\<rparr>) \<noteq> Review" by simp
  have c2: "c\<lparr>interval := i1\<rparr>\<lparr>interval := i2\<rparr> = c\<lparr>interval := i2\<rparr>" by simp
  from run_other_interval [OF c1, of s i2 calls]
  have many: "run s (c\<lparr>interval := i1\<rparr>) calls = run s (c\<lparr>interval := i2\<rparr>) calls \<or>
          (state (run s (c\<lparr>interval := i1\<rparr>) calls) \<noteq> Review \<and>
           state (run s (c\<lparr>interval := i2\<rparr>) calls) \<noteq> Review \<and>
           (run s (c\<lparr>interval := i1\<rparr>) calls)\<lparr>interval := i\<rparr> =
           (run s (c\<lparr>interval := i2\<rparr>) calls)\<lparr>interval := i\<rparr>)"
    unfolding c2 by auto
  from one grad copy many show ?thesis by blast
qed

text \<open>
  The relapsed card at the last step with the intervals 10 and 0, with the default
  configuration: rated \<open>Good\<close> it graduates, and the two results are equal; rated
  \<open>Hard\<close> it does not, and the results keep the intervals 10 and 0. After \<open>Hard\<close> and
  then \<open>Good\<close> the two records are equal.
\<close>

theorem learning_interval_independent_witness:
  "state relapsed_card \<noteq> Review \<and>
   graduates defaultSettings relapsed_card Good \<and>
   schedule defaultSettings (relapsed_card\<lparr>interval := 10\<rparr>) Good 1000 =
   schedule defaultSettings (relapsed_card\<lparr>interval := 0\<rparr>) Good 1000 \<and>
   \<not> graduates defaultSettings relapsed_card Hard \<and>
   interval (schedule defaultSettings (relapsed_card\<lparr>interval := 10\<rparr>) Hard 1000) = 10 \<and>
   interval (schedule defaultSettings (relapsed_card\<lparr>interval := 0\<rparr>) Hard 1000) = 0 \<and>
   run defaultSettings (relapsed_card\<lparr>interval := 10\<rparr>) [(Hard, 1000), (Good, 2000)] =
   run defaultSettings (relapsed_card\<lparr>interval := 0\<rparr>) [(Hard, 1000), (Good, 2000)]"
  using
    learning_interval_independent [where c = relapsed_card and s = defaultSettings
      and ?i1.0 = 10 and ?i2.0 = 0 and i = 0 and rating = Good and now = 1000
      and calls = "[(Hard, 1000), (Good, 2000)]"]
    learning_interval_independent [where c = relapsed_card and s = defaultSettings
      and ?i1.0 = 10 and ?i2.0 = 0 and i = 0 and rating = Hard and now = 1000
      and calls = "[]"]
  by (simp add: graduates_def defaultSettings_def relapsed_card_def sched_defs)

subsection \<open>The store: what a call allocates and what it leaves alone\<close>

lemma card_at_bound: "card_at st a = Some x \<Longrightarrow> a < length st \<and> st ! a = CardObj x"
  by (auto simp: card_at_def split: if_splits obj.splits)

lemma date_at_bound: "date_at st a = Some t \<Longrightarrow> a < length st \<and> st ! a = DateObj t"
  by (auto simp: date_at_def split: if_splits obj.splits)

lemma update_card_eq: "card_at st a = Some x \<Longrightarrow> update_card st a f = st[a := CardObj (f x)]"
  by (simp add: update_card_def)

lemma card_at_upd: "a < length st \<Longrightarrow> card_at (st[a := CardObj y]) a = Some y"
  by (simp add: card_at_def)

lemma card_at_app: "a < length st \<Longrightarrow> card_at (st @ ys) a = card_at st a"
  by (simp add: card_at_def nth_append)

lemma getTime_upd_card:
  "card_at st a = Some x \<Longrightarrow> getTime (st[a := CardObj y]) n = getTime st n"
  by (auto simp: getTime_def date_at_def card_at_def nth_list_update
      split: if_splits obj.splits)

lemma getTime_app: "n < length st \<Longrightarrow> getTime (st @ ys) n = getTime st n"
  by (simp add: getTime_def date_at_def nth_append)

lemmas store_simps = card_at_upd card_at_app getTime_upd_card getTime_app

text \<open>Each helper allocates one date and stores its address in the card.\<close>

lemma setNextDueMinutes_st_eq:
  assumes "card_at st c = Some x"
  shows "setNextDueMinutes_st st c minutes now =
    (st @ [DateObj (case getTime st now of
                      None \<Rightarrow> None
                    | Some n \<Rightarrow> (case minutes of None \<Rightarrow> None | Some m \<Rightarrow> Some (n + m * 60000)))])
      [c := CardObj (x\<lparr>dueDate := length st\<rparr>)]"
  using card_at_bound [OF assms] assms
  by (simp add: setNextDueMinutes_st_def alloc_def update_card_def store_simps)

lemma setNextDueDays_st_eq:
  assumes "card_at st c = Some x"
  shows "setNextDueDays_st st c days now =
    (st @ [DateObj (map_option (\<lambda>n. n + days * 86400000) (getTime st now))])
      [c := CardObj (x\<lparr>dueDate := length st\<rparr>)]"
  using card_at_bound [OF assms] assms
  by (simp add: setNextDueDays_st_def alloc_def update_card_def add_days_def date_at_def
      store_simps)

text \<open>
  The handlers on the store compute what the handlers on values compute: the card at the
  address gets the fields of the value, and its date is the one new object.
\<close>

lemma handleLearning_st_eq:
  assumes c: "card_at st c = Some x" and n: "getTime st now = Some t"
  shows "handleLearning_st s st c rating now =
    (st @ [DateObj (dueDate (handleLearning s (set_due x d0) rating t))])
      [c := CardObj (set_due (handleLearning s (set_due x d0) rating t) (length st))]"
  using card_at_bound [OF c] c n
  by (cases x; cases rating)
    (simp_all add: handleLearning_st_def handleLearning_def Let_def update_card_eq
      setNextDueMinutes_st_eq setNextDueMinutes_def setNextDueDays_st_eq setNextDueDays_def
      set_due_def list_update_append1 store_simps split: option.splits)

lemma handleReview_st_eq:
  assumes c: "card_at st c = Some x" and n: "getTime st now = Some t"
  shows "handleReview_st s st c rating now =
    (st @ [DateObj (dueDate (handleReview s (set_due x d0) rating t))])
      [c := CardObj (set_due (handleReview s (set_due x d0) rating t) (length st))]"
  using card_at_bound [OF c] c n
  by (cases x; cases rating)
    (simp_all add: handleReview_st_def handleReview_def review_switch_st_def review_switch_def
      Let_def update_card_eq setNextDueMinutes_st_eq setNextDueMinutes_def
      setNextDueDays_st_eq setNextDueDays_def set_due_def list_update_append1 store_simps
      split: option.splits)

text \<open>A call appends two objects, the returned card and its date, and writes nowhere else.\<close>

lemma schedule_st_eq:
  assumes c: "card_at st c = Some x" and n: "date_at st now = Some (Some t)"
  shows "schedule_st s st c rating now =
    (st @ [CardObj (set_due (schedule s (set_due x d0) rating t) (Suc (length st))),
           DateObj (dueDate (schedule s (set_due x d0) rating t))],
     length st)"
proof -
  let ?st = "st @ [CardObj x]"
  have c': "card_at ?st (length st) = Some x" by (simp add: card_at_def)
  from n have n': "getTime ?st now = Some t"
    using date_at_bound [OF n] by (simp add: getTime_def date_at_def nth_append)
  show ?thesis
    using c
    by (cases "state x")
      (simp_all add: schedule_st_def schedule_def alloc_def c' Let_def
        handleLearning_st_eq [OF c' n', of _ _ d0] handleReview_st_eq [OF c' n', of _ _ d0]
        set_due_def)
qed

text \<open>The card that the call on the store returns stands for the result on values.\<close>

lemma schedule_st_value:
  assumes c: "card_at st c = Some x" and n: "date_at st now = Some (Some t)"
  shows "value_of (fst (schedule_st s st c rating now)) (snd (schedule_st s st c rating now)) =
         Some (schedule s (the (value_of st c)) rating t)"
  using c
  by (simp add: schedule_st_eq [OF c n, of _ _ "getTime st (dueDate x)"] value_of_def
      card_at_def getTime_def date_at_def nth_append set_due_def)

subsection \<open>No effect on the input\<close>

text \<open>
  Claim C8. \<^verbatim>\<open>schedule\<close> has no effect on the objects it is given. In a store where
  the argument \<open>c\<close> is a card whose due date is a date object and \<open>now\<close> is a valid date,
  every object that exists before the call is the same after it: the store after the call
  is the store before it with new objects appended, so the input card has all its fields,
  its identifier among them, and its date and \<open>now\<close> have their time values. The card that
  is returned has the identifier of the input.
\<close>

theorem schedule_st_leaves_input:
  assumes c: "card_at st c = Some x"
    and d: "date_at st (dueDate x) = Some due"
    and n: "date_at st now = Some (Some t)"
  shows "take (length st) (fst (schedule_st s st c rating now)) = st \<and>
         card_at (fst (schedule_st s st c rating now)) c = Some x \<and>
         date_at (fst (schedule_st s st c rating now)) (dueDate x) = Some due \<and>
         date_at (fst (schedule_st s st c rating now)) now = Some (Some t) \<and>
         map_option card_id
           (card_at (fst (schedule_st s st c rating now)) (snd (schedule_st s st c rating now))) =
           Some (card_id x)"
proof -
  let ?r = "schedule s (set_due x (None::date)) rating t"
  let ?st' = "st @ [CardObj (set_due ?r (Suc (length st))), DateObj (dueDate ?r)]"
  have eq: "schedule_st s st c rating now = (?st', length st)"
    by (rule schedule_st_eq [OF c n])
  from c have cb: "c < length st" by (simp add: card_at_bound)
  from d have db: "dueDate x < length st" by (simp add: date_at_bound)
  from n have nb: "now < length st" by (simp add: date_at_bound)
  have 1: "take (length st) ?st' = st" by simp
  have 2: "card_at ?st' c = Some x" using c cb by (simp add: card_at_app)
  have 3: "date_at ?st' (dueDate x) = Some due"
    using d db by (simp add: date_at_def nth_append)
  have 4: "date_at ?st' now = Some (Some t)"
    using n nb by (simp add: date_at_def nth_append)
  have 5: "map_option card_id (card_at ?st' (length st)) = Some (card_id x)"
    by (simp add: card_at_def schedule_card_id set_due_def)
  from 1 2 3 4 5 show ?thesis by (simp add: eq)
qed

text \<open>
  The example store, with the card at address 1 and \<open>now\<close> at address 2, rated \<open>Again\<close>:
  the first three objects of the store after the call are the three objects before it.
\<close>

theorem schedule_st_leaves_input_witness:
  "card_at example_store 1 = Some stored_card \<and>
   date_at example_store (dueDate stored_card) = Some (Some 5) \<and>
   date_at example_store 2 = Some (Some 1000) \<and>
   take 3 (fst (schedule_st defaultSettings example_store 1 Again 2)) = example_store \<and>
   card_at (fst (schedule_st defaultSettings example_store 1 Again 2)) 1 = Some stored_card \<and>
   map_option card_id
     (card_at (fst (schedule_st defaultSettings example_store 1 Again 2))
        (snd (schedule_st defaultSettings example_store 1 Again 2))) = Some ''note.md''"
proof -
  have c: "card_at example_store 1 = Some stored_card"
    by (simp add: card_at_def example_store_def)
  have d: "date_at example_store (dueDate stored_card) = Some (Some 5)"
    by (simp add: date_at_def example_store_def stored_card_def)
  have n: "date_at example_store 2 = Some (Some 1000)"
    by (simp add: date_at_def example_store_def)
  have l: "length example_store = 3" by (simp add: example_store_def)
  have i: "card_id stored_card = ''note.md''" by (simp add: stored_card_def)
  from schedule_st_leaves_input [OF c d n, of defaultSettings Again] c d n
  show ?thesis by (simp add: l i)
qed

section \<open>Properties of the scheduler on doubles and calendar dates\<close>

subsection \<open>Rounding\<close>

lemma pow2_pos [simp]: "0 < pow2 e"
  by (simp add: pow2_def)

lemma pow2_nonzero [simp]: "pow2 e \<noteq> 0"
  by (simp add: pow2_def)

lemma pow2_nonneg [simp]: "0 \<le> pow2 e"
  by (simp add: pow2_def)

lemma pow2_add: "pow2 (a + b) = pow2 a * pow2 b"
proof -
  have "pow2 e = 2 powr (of_int e)" for e
    by (simp add: pow2_def powr_realpow[symmetric] powr_minus field_simps)
  then show ?thesis by (simp add: powr_add)
qed

lemma pow2_nat: "0 \<le> e \<Longrightarrow> pow2 e = 2 ^ nat e"
  by (simp add: pow2_def)

lemma pow2_mono: "a \<le> b \<Longrightarrow> pow2 a \<le> pow2 b"
proof -
  assume "a \<le> b"
  then obtain k where "b = a + k" "0 \<le> k" by (metis add.commute diff_add_cancel diff_ge_0_iff_ge)
  then have "pow2 b = pow2 a * 2 ^ nat k" by (simp add: pow2_add pow2_nat)
  moreover have "(1::real) \<le> 2 ^ nat k" by simp
  ultimately show ?thesis by (metis mult.right_neutral mult_left_mono pow2_pos less_imp_le)
qed

lemma rhe_of_int [simp]: "rhe (of_int k) = k"
  by (simp add: rhe_def)

lemma rhe_ge: "of_int k \<le> x \<Longrightarrow> k \<le> rhe x"
proof -
  assume "of_int k \<le> x"
  then have "k \<le> \<lfloor>x\<rfloor>" by (simp add: le_floor_iff)
  then show ?thesis by (auto simp: rhe_def Let_def)
qed

lemma rhe_le: "x \<le> of_int k \<Longrightarrow> rhe x \<le> k"
proof (cases "x = of_int k")
  case True then show ?thesis by simp
next
  case False
  assume "x \<le> of_int k"
  with False have lt: "x < of_int k" by simp
  then have "\<lfloor>x\<rfloor> < k" by (simp add: floor_less_iff)
  then show ?thesis by (auto simp: rhe_def Let_def)
qed

text \<open>The exponent of the unit in the last place\<close>

lemma ulp_exp_ge: "- 1074 \<le> ulp_exp y"
  by (simp add: ulp_exp_def)

lemma floor_lt_pow2_bitlen:
  assumes "0 \<le> z" shows "z < pow2 (bitlen \<lfloor>z\<rfloor>)"
proof -
  let ?q = "\<lfloor>z\<rfloor>"
  have q: "z < of_int ?q + 1" by linarith
  have "of_int ?q + 1 \<le> (2::real) ^ nat (bitlen ?q)"
  proof (cases "0 < ?q")
    case True
    from bitlen_bounds[OF True] have "?q < 2 ^ nat (bitlen ?q)" by simp
    then have "?q + 1 \<le> 2 ^ nat (bitlen ?q)" by simp
    then have "real_of_int (?q + 1) \<le> real_of_int (2 ^ nat (bitlen ?q))"
      by (rule of_int_le_iff[THEN iffD2])
    then show ?thesis by simp
  next
    case False
    then have "\<not> 1 \<le> z" by simp
    with assms have "?q = 0" by (simp add: floor_eq_iff)
    then show ?thesis by simp
  qed
  with q have "z < 2 ^ nat (bitlen ?q)" by linarith
  then show ?thesis by (simp add: pow2_nat bitlen_nonneg)
qed

lemma pow2_bitlen_le_floor:
  assumes "0 < bitlen \<lfloor>z\<rfloor>" shows "pow2 (bitlen \<lfloor>z\<rfloor> - 1) \<le> z"
proof -
  let ?q = "\<lfloor>z\<rfloor>"
  from assms have qpos: "0 < ?q" using bitlen_eq_zero_iff[of ?q] by (cases "0 < ?q") auto
  from bitlen_bounds[OF qpos] have "2 ^ nat (bitlen ?q - 1) \<le> ?q" by simp
  then have "real_of_int (2 ^ nat (bitlen ?q - 1)) \<le> real_of_int ?q"
    by (rule of_int_le_iff[THEN iffD2])
  also have "real_of_int ?q \<le> z" by (rule of_int_floor_le)
  finally have "real_of_int (2 ^ nat (bitlen ?q - 1)) \<le> z" .
  then have "(2::real) ^ nat (bitlen ?q - 1) \<le> z" by (simp del: of_int_floor_le)
  with assms show ?thesis by (simp add: pow2_nat)
qed

lemma ulp_exp_upper: assumes "0 < y" shows "y < pow2 (ulp_exp y + 53)"
proof -
  define z where "z = y * pow2 1074"
  from assms have "0 \<le> z" unfolding z_def by (intro mult_nonneg_nonneg less_imp_le pow2_pos)
  then have "z < pow2 (bitlen \<lfloor>z\<rfloor>)" by (rule floor_lt_pow2_bitlen)
  also have "\<dots> \<le> pow2 (max (bitlen \<lfloor>z\<rfloor> - 53) 0 + 53)" by (rule pow2_mono) simp
  also have "\<dots> = pow2 (ulp_exp y + 53 + 1074)"
    by (rule arg_cong[where f = pow2]) (simp add: ulp_exp_def z_def)
  also have "\<dots> = pow2 (ulp_exp y + 53) * pow2 1074" by (rule pow2_add)
  finally show ?thesis by (simp add: z_def)
qed

lemma ulp_exp_lower:
  assumes "ulp_exp y \<noteq> - 1074"
  shows "pow2 (ulp_exp y + 52) \<le> y"
proof -
  define z where "z = y * pow2 1074"
  from assms have b: "53 < bitlen \<lfloor>z\<rfloor>" and e: "ulp_exp y = bitlen \<lfloor>z\<rfloor> - 53 - 1074"
    by (auto simp: ulp_exp_def z_def max_def split: if_splits)
  from b have "pow2 (bitlen \<lfloor>z\<rfloor> - 1) \<le> z" by (intro pow2_bitlen_le_floor) simp
  moreover have "pow2 (bitlen \<lfloor>z\<rfloor> - 1) = pow2 (ulp_exp y + 52 + 1074)"
    by (rule arg_cong[where f = pow2]) (simp add: e)
  moreover have "\<dots> = pow2 (ulp_exp y + 52) * pow2 1074" by (rule pow2_add)
  ultimately show ?thesis by (simp add: z_def)
qed

text \<open>The exponent is determined by the binade.\<close>

lemma ulp_exp_eq:
  assumes "0 < y" and "- 1074 \<le> e" and "y < pow2 (e + 53)"
    and "e = - 1074 \<or> pow2 (e + 52) \<le> y"
  shows "ulp_exp y = e"
proof (rule ccontr)
  assume ne: "ulp_exp y \<noteq> e"
  show False
  proof (cases "ulp_exp y < e")
    case True
    with assms(2) ulp_exp_ge[of y] have "e \<noteq> - 1074" by simp
    with assms(4) have "pow2 (e + 52) \<le> y" by simp
    moreover from True have "pow2 (ulp_exp y + 53) \<le> pow2 (e + 52)" by (intro pow2_mono) simp
    ultimately show False using ulp_exp_upper[OF assms(1)] by simp
  next
    case False
    with ne have gt: "e < ulp_exp y" by simp
    with assms(2) have "ulp_exp y \<noteq> - 1074" by simp
    then have "pow2 (ulp_exp y + 52) \<le> y" by (rule ulp_exp_lower)
    moreover from gt have "pow2 (e + 53) \<le> pow2 (ulp_exp y + 52)" by (intro pow2_mono) simp
    ultimately show False using assms(3) by simp
  qed
qed

lemma div_pow2_nonpos: "e \<le> 0 \<Longrightarrow> of_int k / pow2 e = of_int (k * 2 ^ nat (- e))"
  by (cases "e = 0") (simp_all add: pow2_def)

lemma pow2_53: "pow2 53 = 2 ^ 53"
  by (simp add: pow2_def)

lemma pow2_52: "pow2 52 = 2 ^ 52"
  by (simp add: pow2_def)

lemma small_ulp_exp:
  assumes "0 < y" and "y \<le> 2 ^ 53"
  shows "ulp_exp y \<le> 1"
proof (rule ccontr)
  assume "\<not> ulp_exp y \<le> 1"
  then have e: "2 \<le> ulp_exp y" by simp
  then have "ulp_exp y \<noteq> - 1074" by simp
  then have "pow2 (ulp_exp y + 52) \<le> y" by (rule ulp_exp_lower)
  moreover from e have "pow2 54 \<le> pow2 (ulp_exp y + 52)" by (intro pow2_mono) simp
  moreover have "pow2 54 = 2 * 2 ^ 53" by (simp add: pow2_def)
  ultimately show False using assms(2) by simp
qed

text \<open>The significand of the result.\<close>

lemma round_pos_signif:
  "round_pos y =
     (if 2 ^ 1024 \<le> of_int (signif y) * pow2 (ulp_exp y) then PInf
      else Fin (of_int (signif y) * pow2 (ulp_exp y)))"
  by (simp add: round_pos_def signif_def Let_def)

lemma rounded_ge_int:
  assumes y: "0 < y" and N: "of_int N \<le> y" "N \<le> 2 ^ 53"
  shows "of_int N \<le> of_int (signif y) * pow2 (ulp_exp y)"
proof -
  let ?e = "ulp_exp y"
  show ?thesis
  proof (cases "?e \<le> 0")
    case True
    let ?K = "N * 2 ^ nat (- ?e)"
    have K: "of_int N / pow2 ?e = of_int ?K" using True by (rule div_pow2_nonpos)
    from N(1) have "of_int N / pow2 ?e \<le> y / pow2 ?e"
      by (simp add: divide_right_mono less_imp_le)
    then have "?K \<le> signif y" unfolding signif_def K by (rule rhe_ge)
    then have "real_of_int ?K \<le> of_int (signif y)" by (rule of_int_le_iff[THEN iffD2])
    then have "real_of_int ?K * pow2 ?e \<le> of_int (signif y) * pow2 ?e"
      by (rule mult_right_mono) (rule pow2_nonneg)
    moreover have "real_of_int ?K * pow2 ?e = of_int N" unfolding K[symmetric] by simp
    ultimately show ?thesis by (simp only:)
  next
    case False
    then have "?e \<noteq> - 1074" and e1: "1 \<le> ?e" by simp_all
    then have "pow2 (?e + 52) \<le> y" by (intro ulp_exp_lower)
    then have "pow2 52 * pow2 ?e \<le> y" by (simp add: pow2_add mult.commute)
    then have "pow2 52 \<le> y / pow2 ?e" by (simp add: pos_le_divide_eq)
    then have "real_of_int (2 ^ 52) \<le> y / pow2 ?e" by (simp add: pow2_52)
    then have "2 ^ 52 \<le> signif y" unfolding signif_def by (rule rhe_ge)
    then have "real_of_int (2 ^ 52) \<le> of_int (signif y)" by (rule of_int_le_iff[THEN iffD2])
    then have "pow2 52 \<le> of_int (signif y)" by (simp add: pow2_52)
    then have a: "pow2 52 * pow2 ?e \<le> of_int (signif y) * pow2 ?e"
      by (rule mult_right_mono) (rule pow2_nonneg)
    from e1 have b: "pow2 53 \<le> pow2 (52 + ?e)" by (intro pow2_mono) simp
    have c: "pow2 (52 + ?e) = pow2 52 * pow2 ?e" by (rule pow2_add)
    from N(2) have "real_of_int N \<le> real_of_int (2 ^ 53)" by (rule of_int_le_iff[THEN iffD2])
    then have d: "real_of_int N \<le> pow2 53" by (simp add: pow2_53)
    from a b c d show ?thesis by linarith
  qed
qed

lemma rounded_le_int:
  assumes y: "0 < y" and M: "y \<le> of_int M" "M \<le> 2 ^ 53"
  shows "of_int (signif y) * pow2 (ulp_exp y) \<le> of_int M"
proof -
  let ?e = "ulp_exp y"
  from M(2) have M53: "real_of_int M \<le> 2 ^ 53"
    using of_int_le_iff[of M "2 ^ 53", where ?'a = real] by simp
  with M(1) have y53: "y \<le> 2 ^ 53" by simp
  with y have e1: "?e \<le> 1" by (rule small_ulp_exp)
  show ?thesis
  proof (cases "?e \<le> 0")
    case True
    let ?K = "M * 2 ^ nat (- ?e)"
    have K: "of_int M / pow2 ?e = of_int ?K" using True by (rule div_pow2_nonpos)
    from M(1) have "y / pow2 ?e \<le> of_int M / pow2 ?e"
      by (simp add: divide_right_mono less_imp_le)
    then have "signif y \<le> ?K" unfolding signif_def K by (rule rhe_le)
    then have "real_of_int (signif y) \<le> of_int ?K" by (rule of_int_le_iff[THEN iffD2])
    then have "of_int (signif y) * pow2 ?e \<le> real_of_int ?K * pow2 ?e"
      by (rule mult_right_mono) (rule pow2_nonneg)
    moreover have "real_of_int ?K * pow2 ?e = of_int M" unfolding K[symmetric] by simp
    ultimately show ?thesis by (simp only:)
  next
    case False
    with e1 have e: "?e = 1" by simp
    then have "?e \<noteq> - 1074" by simp
    then have "pow2 (?e + 52) \<le> y" by (rule ulp_exp_lower)
    then have "2 ^ 53 \<le> y" by (simp add: e pow2_53)
    with y53 M(1) M53 have yM: "y = 2 ^ 53" "real_of_int M = 2 ^ 53" by simp_all
    have pe: "pow2 ?e = 2" using e by (simp add: pow2_def)
    have "y / pow2 ?e = real_of_int (2 ^ 52)" unfolding pe by (simp add: yM(1))
    then have sg: "signif y = 2 ^ 52" by (simp only: signif_def rhe_of_int)
    show ?thesis unfolding sg pe using yM(2) by simp
  qed
qed

lemma signif_nonneg: "0 \<le> y \<Longrightarrow> 0 \<le> signif y"
  unfolding signif_def by (rule rhe_ge) simp



lemma round_pos_int:
  assumes "1 \<le> k" and "k \<le> 2 ^ 53"
  shows "round_pos (of_int k) = Fin (of_int k)"
proof -
  from assms(1) have pos: "0 < real_of_int k" by simp
  have ge: "of_int k \<le> of_int (signif (of_int k)) * pow2 (ulp_exp (of_int k))"
    using pos _ assms(2) by (rule rounded_ge_int) simp
  have le: "of_int (signif (of_int k)) * pow2 (ulp_exp (of_int k)) \<le> of_int k"
    using pos _ assms(2) by (rule rounded_le_int) simp
  from assms(2) have "real_of_int k \<le> 2 ^ 53"
    using of_int_le_iff[of k "2 ^ 53", where ?'a = real] by simp
  moreover have "(2::real) ^ 53 < 2 ^ 1024" by simp
  ultimately have "\<not> 2 ^ 1024 \<le> real_of_int k" by linarith
  with ge le show ?thesis by (simp add: round_pos_signif)
qed

lemma round64_int: "\<bar>k\<bar> \<le> 2 ^ 53 \<Longrightarrow> round64 (of_int k) = Fin (of_int k)"
proof -
  assume a: "\<bar>k\<bar> \<le> 2 ^ 53"
  consider "k = 0" | "1 \<le> k" | "k \<le> - 1" by linarith
  then show ?thesis
  proof cases
    case 1 then show ?thesis by (simp add: round64_def)
  next
    case 2
    with a have "round_pos (of_int k) = Fin (of_int k)" by (intro round_pos_int) simp_all
    with 2 show ?thesis by (simp add: round64_def)
  next
    case 3
    with a have "round_pos (of_int (- k)) = Fin (of_int (- k))" by (intro round_pos_int) simp_all
    with 3 show ?thesis by (simp add: round64_def dneg_def)
  qed
qed


subsection \<open>Evaluating a rounding\<close>

lemma round64_pos_eq:
  assumes "0 < y" and "- 1074 \<le> e" and "y < pow2 (e + 53)"
    and "e = - 1074 \<or> pow2 (e + 52) \<le> y"
    and "rhe (y / pow2 e) = m" and "of_int m * pow2 e = r" and "r < 2 ^ 1024"
  shows "round64 y = Fin r"
proof -
  have "ulp_exp y = e" using assms(1-4) by (rule ulp_exp_eq)
  with assms(5-7) have "round_pos y = Fin r" by (simp add: round_pos_def Let_def)
  with assms(1) show ?thesis by (simp add: round64_def)
qed

lemma lit_1: "lit 1 = Fin 1" and lit_10: "lit 10 = Fin 10" and lit_4: "lit 4 = Fin 4"
  using round64_int[of 1] round64_int[of 10] round64_int[of 4] by (simp_all add: lit_def)

lemma lit_5_2: "lit (5 / 2) = Fin (5 / 2)"
  unfolding lit_def
  by (rule round64_pos_eq[where e = "- 51" and m = "5629499534213120"])
    (simp_all add: pow2_def rhe_def)

lemma lit_13_10: "lit (13 / 10) = Fin (5854679515581645 / 4503599627370496)"
  unfolding lit_def
  by (rule round64_pos_eq[where e = "- 52" and m = "5854679515581645"])
    (simp_all add: pow2_def rhe_def)

subsection \<open>Order and sign of doubles\<close>





lemma dmul_NaN [simp]: "dmul NaN b = NaN"
  by (simp add: dmul_def)

lemma dfloor_NaN [simp]: "dfloor NaN = NaN"
  by (simp add: dfloor_def)



subsection \<open>A date built from a number\<close>

lemma maxTime_le: "maxTime \<le> 2 ^ 53"
  by (simp add: maxTime_def)


lemma trunc_of_int [simp]: "trunc (of_int n) = n"
  by (simp add: trunc_def)



subsection \<open>The day of the month\<close>

lemma year_from_bounds:
  "0 \<le> d \<Longrightarrow> year_from d y = (d', y') \<Longrightarrow> 0 \<le> d' \<and> d' < days_in_year y'"
proof (induction d y rule: year_from.induct)
  case (1 d y)
  show ?case
  proof (cases "days_in_year y \<le> d")
    case True
    then have "year_from d y = year_from (d - days_in_year y) (y + 1)"
      by (subst year_from.simps) simp
    with "1.prems" True "1.IH" show ?thesis by simp
  next
    case False
    then have "year_from d y = (d, y)" by (subst year_from.simps) simp
    with "1.prems" False show ?thesis by simp
  qed
qed

lemma date_in_year_bounds:
  "0 \<le> d \<Longrightarrow> d < sum_list ls \<Longrightarrow> \<forall>l \<in> set ls. l \<le> 31 \<Longrightarrow>
   1 \<le> date_in_year d ls \<and> date_in_year d ls \<le> 31"
proof (induction ls arbitrary: d)
  case Nil
  then show ?case by simp
next
  case (Cons l ls)
  show ?case
  proof (cases "d < l")
    case True
    with Cons.prems show ?thesis by simp
  next
    case False
    with Cons.prems have "0 \<le> d - l" "d - l < sum_list ls" "\<forall>l \<in> set ls. l \<le> 31" by simp_all
    then have "1 \<le> date_in_year (d - l) ls \<and> date_in_year (d - l) ls \<le> 31" by (rule Cons.IH)
    with False show ?thesis by simp
  qed
qed

lemma DateFromTime_bounds: "1 \<le> DateFromTime t \<and> DateFromTime t \<le> 31"
proof -
  obtain d y where dy: "year_from ((Day t - 10957) mod 146097) 2000 = (d, y)"
    by (cases "year_from ((Day t - 10957) mod 146097) 2000")
  have "0 \<le> (Day t - 10957) mod 146097" by simp
  then have "0 \<le> d \<and> d < days_in_year y" using dy by (rule year_from_bounds)
  moreover have "sum_list (month_lengths y) = days_in_year y"
    by (simp add: month_lengths_def days_in_year_def)
  moreover have "\<forall>l \<in> set (month_lengths y). l \<le> 31" by (simp add: month_lengths_def)
  ultimately have "1 \<le> date_in_year d (month_lengths y) \<and> date_in_year d (month_lengths y) \<le> 31"
    by (intro date_in_year_bounds) simp_all
  with dy show ?thesis by (simp add: DateFromTime_def)
qed

subsection \<open>Moving a date by days\<close>

lemma day_time_split: "Day t * msPerDay + TimeWithinDay t = t"
  by (simp add: Day_def TimeWithinDay_def)

text \<open>The date after \<^verbatim>\<open>setDate(getDate() + days)\<close>, in terms of the truncated sum.\<close>

lemma setDate_getDate:
  assumes "dadd (getDate h t) days = Fin x"
  shows "setDate h t (dadd (getDate h t) days) =
         days_later h t (trunc x - DateFromTime (LocalTime h t))"
proof -
  let ?l = "LocalTime h t" and ?g = "DateFromTime (LocalTime h t)"
  have "(Day ?l - (?g - 1) + trunc x - 1) * msPerDay + TimeWithinDay ?l =
        Day ?l * msPerDay + TimeWithinDay ?l + (trunc x - ?g) * msPerDay"
    by (simp add: algebra_simps)
  also have "\<dots> = ?l + (trunc x - ?g) * msPerDay" by (simp only: day_time_split)
  finally show ?thesis by (simp add: assms setDate_def days_later_def Let_def)
qed

lemma setNextDueDays_js_shift:
  assumes "dadd (getDate h now) days = Fin x"
  shows "dueDate (setNextDueDays_js h c days now) =
         days_later h now (trunc x - DateFromTime (LocalTime h now))"
proof -
  have "dueDate (setNextDueDays_js h c days now) = setDate h now (dadd (getDate h now) days)"
    by (simp add: setNextDueDays_js_def Let_def)
  then show ?thesis by (simp only: setDate_getDate[OF assms])
qed

text \<open>A whole number of days, small enough for the sum with the day of the month to be exact.\<close>

lemma setNextDueDays_js_whole:
  assumes "\<bar>n\<bar> \<le> 2 ^ 52"
  shows "dueDate (setNextDueDays_js h c (Fin (of_int n)) now) = days_later h now n"
proof -
  let ?g = "DateFromTime (LocalTime h now)"
  from DateFromTime_bounds[of "LocalTime h now"] assms have "\<bar>?g + n\<bar> \<le> 2 ^ 53"
    by (auto simp: abs_le_iff)
  then have "round64 (of_int (?g + n)) = Fin (of_int (?g + n))" by (rule round64_int)
  then have sum: "dadd (getDate h now) (Fin (of_int n)) = Fin (of_int (?g + n))"
    by (simp add: dadd_def getDate_def)
  have "trunc (of_int (?g + n)) - ?g = n" by (simp only: trunc_of_int add_diff_cancel_left')
  with setNextDueDays_js_shift[OF sum, of c] show ?thesis by (simp only:)
qed

text \<open>A number of days that is not finite.\<close>

lemma setNextDueDays_js_not_finite:
  assumes "days = NaN \<or> days = PInf \<or> days = NInf"
  shows "dueDate (setNextDueDays_js h c days now) = None"
  using assms by (auto simp: setNextDueDays_js_def Let_def dadd_def getDate_def setDate_def)



lemma schedule_js_learning:
  "state c \<noteq> Review \<Longrightarrow> schedule_js h s c rating now = handleLearning_js h s c rating now"
  by (cases "state c") (simp_all add: schedule_js_def)

lemma schedule_js_review:
  "state c = Review \<Longrightarrow> schedule_js h s c rating now = handleReview_js h s c rating now"
  by (simp add: schedule_js_def)


lemma setNextDueDays_js_fields:
  "state (setNextDueDays_js h c days now) = state c"
  "interval (setNextDueDays_js h c days now) = interval c"
  "easeFactor (setNextDueDays_js h c days now) = easeFactor c"
  "stepIndex (setNextDueDays_js h c days now) = stepIndex c"
  "card_id (setNextDueDays_js h c days now) = card_id c"
  by (simp_all add: setNextDueDays_js_def Let_def)

lemma setNextDueDays_js_cong:
  "dueDate (setNextDueDays_js h c days now) = dueDate (setNextDueDays_js h c' days now)"
  by (simp add: setNextDueDays_js_def Let_def)

text \<open>What an easy review computes.\<close>

lemma review_easy_js_fields:
  assumes "state c = Review"
  shows "interval (schedule_js h s c Easy now) =
           dfloor (dmul (dmul (interval c) (easeFactor c)) (easyBonus s))"
    and "easeFactor (schedule_js h s c Easy now) = dadd (easeFactor c) (lit 0.15)"
    and "state (schedule_js h s c Easy now) = Review"
    and "dueDate (schedule_js h s c Easy now) =
           dueDate (setNextDueDays_js h c
             (dfloor (dmul (dmul (interval c) (easeFactor c)) (easyBonus s))) now)"
  using assms
  by (simp_all add: schedule_js_review handleReview_js_def review_switch_js_def Let_def
      setNextDueDays_js_fields)

lemma days_later_same_offset:
  assumes "LocalTZA h now True = LocalTZA h (LocalTime h now + n * msPerDay) False"
    and "valid_time (now + n * msPerDay)"
  shows "days_later h now n = Some (now + n * msPerDay)"
  using assms by (simp add: days_later_def UTC_def LocalTime_def clip_def valid_time_def)

text \<open>
  Claim C6, as amended. For every record in state \<open>Review\<close> (Retaining) rated \<open>Easy\<close>:
  the interval of the result is the floor of interval times ease times \<^verbatim>\<open>easyBonus\<close>
  and its ease is the ease of the input plus 0.15, both in double arithmetic; it stays in
  state \<open>Review\<close>; and its due date is what \<^verbatim>\<open>setDate\<close> gives for the new
  interval: for an interval of \<open>n\<close> days, at most \<open>2^52\<close>, the date that reads the same
  local time \<open>n\<close> days after \<open>now\<close> on the calendar of the zone, if that date is in
  the range of \<^verbatim>\<open>Date\<close>, and an invalid date otherwise. That date is \<open>now\<close> plus
  \<open>n\<close> times 86400000 milliseconds when the offset of the zone is the same at both
  ends. The due date is invalid as well when the interval is not finite.
\<close>

theorem review_easy_js:
  assumes "state c = Review"
  shows "interval (schedule_js h s c Easy now) =
           dfloor (dmul (dmul (interval c) (easeFactor c)) (easyBonus s)) \<and>
         easeFactor (schedule_js h s c Easy now) = dadd (easeFactor c) (lit 0.15) \<and>
         state (schedule_js h s c Easy now) = Review \<and>
         (interval (schedule_js h s c Easy now) = Fin (of_int n) \<and> \<bar>n\<bar> \<le> 2 ^ 52 \<longrightarrow>
            dueDate (schedule_js h s c Easy now) = days_later h now n) \<and>
         (interval (schedule_js h s c Easy now) = Fin (of_int n) \<and> \<bar>n\<bar> \<le> 2 ^ 52 \<and>
          LocalTZA h now True = LocalTZA h (LocalTime h now + n * msPerDay) False \<and>
          valid_time (now + n * msPerDay) \<longrightarrow>
            dueDate (schedule_js h s c Easy now) = Some (now + n * msPerDay)) \<and>
         (interval (schedule_js h s c Easy now) \<in> {NaN, PInf, NInf} \<longrightarrow>
            dueDate (schedule_js h s c Easy now) = None)"
proof -
  let ?r = "schedule_js h s c Easy now"
  note f = review_easy_js_fields[OF assms, of h s now]
  have whole: "dueDate ?r = days_later h now n" if "interval ?r = Fin (of_int n)" "\<bar>n\<bar> \<le> 2 ^ 52"
    using that f(1) f(4) setNextDueDays_js_whole[OF that(2), of h c now] by simp
  have same: "dueDate ?r = Some (now + n * msPerDay)"
    if "interval ?r = Fin (of_int n)" "\<bar>n\<bar> \<le> 2 ^ 52"
      "LocalTZA h now True = LocalTZA h (LocalTime h now + n * msPerDay) False"
      "valid_time (now + n * msPerDay)"
    using whole[OF that(1,2)] days_later_same_offset[OF that(3,4)] by simp
  have inf: "dueDate ?r = None" if "interval ?r \<in> {NaN, PInf, NInf}"
  proof -
    from that f(1) have "interval ?r = NaN \<or> interval ?r = PInf \<or> interval ?r = NInf" by auto
    then have "dueDate (setNextDueDays_js h c (interval ?r) now) = None"
      by (rule setNextDueDays_js_not_finite)
    with f(1) f(4) show ?thesis by simp
  qed
  from f(1-3) whole same inf show ?thesis by blast
qed

text \<open>A whole number of milliseconds after \<open>now\<close>, in range.\<close>

lemma TimeClip_of_int: "valid_time k \<Longrightarrow> TimeClip (Fin (of_int k)) = Some k"
proof -
  assume "valid_time k"
  then have "\<bar>k\<bar> \<le> maxTime" by (simp add: valid_time_def)
  then have "\<bar>real_of_int k\<bar> \<le> real_of_int maxTime"
    by (metis of_int_abs of_int_le_iff)
  then show ?thesis by (simp add: TimeClip_def)
qed

lemma minutes_exact:
  assumes "m * 60000 = of_int p" and "\<bar>p\<bar> \<le> 2 ^ 53" and "valid_time (now + p)"
  shows "TimeClip (dadd (Fin (of_int now)) (dmul (Fin m) (Fin 60000))) = Some (now + p)"
proof -
  have "dmul (Fin m) (Fin 60000) = round64 (of_int p)" by (simp add: dmul_def assms(1))
  also have "\<dots> = Fin (of_int p)" using assms(2) by (rule round64_int)
  finally have p: "dmul (Fin m) (Fin 60000) = Fin (of_int p)" .
  from assms(3) have "\<bar>now + p\<bar> \<le> 2 ^ 53" using maxTime_le by (simp add: valid_time_def)
  then have "round64 (of_int (now + p)) = Fin (of_int (now + p))" by (rule round64_int)
  then have "dadd (Fin (of_int now)) (Fin (of_int p)) = Fin (of_int (now + p))"
    by (simp add: dadd_def)
  with p assms(3) show ?thesis by (simp only: TimeClip_of_int)
qed

text \<open>What a passed learning step computes.\<close>

lemma learning_good_js_step:
  assumes "state c \<noteq> Review" and "stepIndex c < int (length (learningSteps s)) - 1"
  shows "stepIndex (schedule_js h s c Good now) = stepIndex c + 1"
    and "state (schedule_js h s c Good now) = Learning"
    and "dueDate (schedule_js h s c Good now) =
           TimeClip (dadd (Fin (of_int now))
             (dmul (step_at_js (learningSteps s) (stepIndex c + 1)) (Fin 60000)))"
  using assms
  by (simp_all add: schedule_js_learning handleLearning_js_def setNextDueMinutes_js_def Let_def)

lemma learning_good_js_graduate:
  assumes "state c \<noteq> Review" and "\<not> stepIndex c < int (length (learningSteps s)) - 1"
  shows "state (schedule_js h s c Good now) = Review"
    and "interval (schedule_js h s c Good now) = graduatingInterval s"
    and "dueDate (schedule_js h s c Good now) =
           dueDate (setNextDueDays_js h c (graduatingInterval s) now)"
  using assms
  by (simp_all add: schedule_js_learning handleLearning_js_def Let_def setNextDueDays_js_fields
      setNextDueDays_js_def)

text \<open>
  Claim C5, as amended. For every record in a learning state (\<open>New\<close>, \<open>Learning\<close>,
  \<open>Relearning\<close>) with a valid step index that is rated \<open>Good\<close> (Pass): if the step
  index is not the last index of \<^verbatim>\<open>learningSteps\<close>, the result has the step index
  plus one, is in state \<open>Learning\<close> (Acquiring), and its due date is built from
  \<open>now\<close> plus \<^verbatim>\<open>learningSteps[stepIndex]\<close> times 60000 in double arithmetic, for
  the new step index: it is \<open>now\<close> plus that many minutes when they are a whole number
  \<open>p\<close> of milliseconds, at most \<open>2^53\<close>, and the date is in the range of
  \<^verbatim>\<open>Date\<close>. If the step index is the last index, the result is in state \<open>Review\<close>
  (Retaining) and has the interval \<^verbatim>\<open>graduatingInterval\<close>; when that is a whole
  number \<open>n\<close> of days, at most \<open>2^52\<close>, the due date is the date that reads the same
  local time \<open>n\<close> days after \<open>now\<close>, if it is in range, which is \<open>now\<close> plus
  \<open>n\<close> times 86400000 milliseconds when the offset of the zone is the same at both
  ends.
\<close>

theorem learning_good_js:
  assumes "state c \<noteq> Review"
    and "0 \<le> stepIndex c" and "stepIndex c < int (length (learningSteps s))"
  shows "(stepIndex c \<noteq> int (length (learningSteps s)) - 1 \<longrightarrow>
            stepIndex (schedule_js h s c Good now) = stepIndex c + 1 \<and>
            state (schedule_js h s c Good now) = Learning \<and>
            dueDate (schedule_js h s c Good now) =
              TimeClip (dadd (Fin (of_int now))
                (dmul (learningSteps s ! nat (stepIndex (schedule_js h s c Good now)))
                   (Fin 60000))) \<and>
            (learningSteps s ! nat (stepIndex (schedule_js h s c Good now)) = Fin m \<and>
             m * 60000 = of_int p \<and> \<bar>p\<bar> \<le> 2 ^ 53 \<and> valid_time (now + p) \<longrightarrow>
               dueDate (schedule_js h s c Good now) = Some (now + p))) \<and>
         (stepIndex c = int (length (learningSteps s)) - 1 \<longrightarrow>
            state (schedule_js h s c Good now) = Review \<and>
            interval (schedule_js h s c Good now) = graduatingInterval s \<and>
            (graduatingInterval s = Fin (of_int n) \<and> \<bar>n\<bar> \<le> 2 ^ 52 \<longrightarrow>
               dueDate (schedule_js h s c Good now) = days_later h now n) \<and>
            (graduatingInterval s = Fin (of_int n) \<and> \<bar>n\<bar> \<le> 2 ^ 52 \<and>
             LocalTZA h now True = LocalTZA h (LocalTime h now + n * msPerDay) False \<and>
             valid_time (now + n * msPerDay) \<longrightarrow>
               dueDate (schedule_js h s c Good now) = Some (now + n * msPerDay)))"
proof (cases "stepIndex c = int (length (learningSteps s)) - 1")
  case False
  with assms(3) have lt: "stepIndex c < int (length (learningSteps s)) - 1" by simp
  note f = learning_good_js_step[OF assms(1) lt, of h now]
  from assms(2) lt have at: "step_at_js (learningSteps s) (stepIndex c + 1) =
      learningSteps s ! nat (stepIndex c + 1)"
    by (simp add: step_at_js_def)
  have due: "dueDate (schedule_js h s c Good now) =
      TimeClip (dadd (Fin (of_int now))
        (dmul (learningSteps s ! nat (stepIndex (schedule_js h s c Good now))) (Fin 60000)))"
    by (simp only: f at)
  have exact: "dueDate (schedule_js h s c Good now) = Some (now + p)"
    if "learningSteps s ! nat (stepIndex (schedule_js h s c Good now)) = Fin m"
      "m * 60000 = of_int p" "\<bar>p\<bar> \<le> 2 ^ 53" "valid_time (now + p)"
    using due that(1) minutes_exact[OF that(2-4)] by simp
  from False f(1,2) due exact show ?thesis by blast
next
  case True
  then have ge: "\<not> stepIndex c < int (length (learningSteps s)) - 1" by simp
  note f = learning_good_js_graduate[OF assms(1) ge, of h now]
  have whole: "dueDate (schedule_js h s c Good now) = days_later h now n"
    if "graduatingInterval s = Fin (of_int n)" "\<bar>n\<bar> \<le> 2 ^ 52"
    using f(3) that(1) setNextDueDays_js_whole[OF that(2), of h c now] by simp
  have same: "dueDate (schedule_js h s c Good now) = Some (now + n * msPerDay)"
    if "graduatingInterval s = Fin (of_int n)" "\<bar>n\<bar> \<le> 2 ^ 52"
      "LocalTZA h now True = LocalTZA h (LocalTime h now + n * msPerDay) False"
      "valid_time (now + n * msPerDay)"
    using whole[OF that(1,2)] days_later_same_offset[OF that(3,4)] by simp
  from True f(1,2) whole same show ?thesis by blast
qed

subsection \<open>The due date and \<open>now\<close>\<close>








subsection \<open>The state and the step index in both translations\<close>

text \<open>
  The translation with exact arithmetic and the one with doubles give the same state, step
  index and id: a call takes them from the rating, the state, the step index and the
  number of learning steps alone.
\<close>

lemma schedule_js_state_step:
  assumes "state c' = state c" and "stepIndex c' = stepIndex c"
    and "length (learningSteps s') = length (learningSteps s)"
  shows "state (schedule_js h s' c' rating now') = state (schedule s c rating now)"
    and "stepIndex (schedule_js h s' c' rating now') = stepIndex (schedule s c rating now)"
    and "card_id c' = card_id c \<Longrightarrow>
         card_id (schedule_js h s' c' rating now') = card_id (schedule s c rating now)"
  using assms
  by (cases rating; cases "state c";
      simp add: schedule_js_def schedule_def handleLearning_js_def handleLearning_def
        handleReview_js_def handleReview_def review_switch_js_def review_switch_def
        setNextDueMinutes_js_def setNextDueMinutes_def setNextDueDays_js_def
        setNextDueDays_def Let_def)+


subsection \<open>Literals and products of the examples\<close>

lemma lit_15_100: "lit (3 / 20) = Fin (5404319552844595 / 36028797018963968)"
  unfolding lit_def
  by (rule round64_pos_eq[where e = "- 55" and m = "5404319552844595"])
    (simp_all add: pow2_def rhe_def)

lemma lit_265_100: "lit (53 / 20) = Fin (5967269506265907 / 2251799813685248)"
  unfolding lit_def
  by (rule round64_pos_eq[where e = "- 51" and m = "5967269506265907"])
    (simp_all add: pow2_def rhe_def)

lemma lit_23_10: "lit (23 / 10) = Fin (2589569785738035 / 1125899906842624)"
  unfolding lit_def
  by (rule round64_pos_eq[where e = "- 51" and m = "5179139571476070"])
    (simp_all add: pow2_def rhe_def)

lemma lit_12_10: "lit (6 / 5) = Fin (5404319552844595 / 4503599627370496)"
  unfolding lit_def
  by (rule round64_pos_eq[where e = "- 52" and m = "5404319552844595"])
    (simp_all add: pow2_def rhe_def)

lemmas default_js =
  defaultSettings_js_def lit_1 lit_10 lit_4 lit_5_2 lit_13_10 lit_12_10

lemma product_10: "dfloor (dmul (dmul (Fin 10) (Fin (5 / 2))) (lit (13 / 10))) = Fin 32"
proof -
  have "dmul (Fin 10) (Fin (5 / 2)) = Fin 25"
    using round64_int[of 25] by (simp add: dmul_def)
  moreover have "dmul (Fin 25) (lit (13 / 10)) = Fin (65 / 2)"
    unfolding lit_13_10 dmul_def
    by (simp, rule round64_pos_eq[where e = "- 47" and m = "4573968371548160"])
      (simp_all add: pow2_def rhe_def)
  ultimately show ?thesis by (simp add: dfloor_def)
qed

lemma sum_265: "dadd (Fin (5 / 2)) (lit (3 / 20)) = lit (53 / 20)"
  unfolding lit_15_100 lit_265_100 dadd_def
  by (simp, rule round64_pos_eq[where e = "- 51" and m = "5967269506265907"])
    (simp_all add: pow2_def rhe_def)

lemma product_1300: "dfloor (dmul (dmul (Fin 1300) (lit (23 / 10))) (lit (13 / 10))) = Fin 3886"
proof -
  have "dmul (Fin 1300) (lit (23 / 10)) = Fin (6575079534100479 / 2199023255552)"
    unfolding lit_23_10 dmul_def
    by (simp, rule round64_pos_eq[where e = "- 41" and m = "6575079534100479"])
      (simp_all add: pow2_def rhe_def)
  moreover have "dmul (Fin (6575079534100479 / 2199023255552)) (lit (13 / 10)) =
      Fin (8547603394330623 / 2199023255552)"
    unfolding lit_13_10 dmul_def
    by (simp, rule round64_pos_eq[where e = "- 41" and m = "8547603394330623"])
      (simp_all add: pow2_def rhe_def)
  ultimately show ?thesis by (simp add: dfloor_def)
qed

lemma product_long:
  "dfloor (dmul (dmul (Fin 100000000) (Fin (5 / 2))) (lit (13 / 10))) = Fin 325000000"
proof -
  have "dmul (Fin 100000000) (Fin (5 / 2)) = Fin 250000000"
    using round64_int[of 250000000] by (simp add: dmul_def)
  moreover have "dmul (Fin 250000000) (lit (13 / 10)) = Fin 325000000"
    unfolding lit_13_10 dmul_def
    by (simp, rule round64_pos_eq[where e = "- 24" and m = "5452595200000000"])
      (simp_all add: pow2_def rhe_def)
  ultimately show ?thesis by (simp add: dfloor_def)
qed

subsection \<open>An easy review: examples\<close>

text \<open>
  Scenario C at the instant 1000 in UTC, with the default configuration: interval 10 and
  ease 2.5 give the interval 32, the ease 2.65 and a due date 32 days later. The interval
  1300 with ease 2.3 gives 3886: the product of the three doubles is below 3887.
\<close>

theorem review_easy_js_witness:
  "state review_card_js = Review \<and>
   interval (schedule_js utc defaultSettings_js review_card_js Easy 1000) = Fin 32 \<and>
   easeFactor (schedule_js utc defaultSettings_js review_card_js Easy 1000) = lit 2.65 \<and>
   state (schedule_js utc defaultSettings_js review_card_js Easy 1000) = Review \<and>
   dueDate (schedule_js utc defaultSettings_js review_card_js Easy 1000) =
     Some (1000 + 32 * 86400000) \<and>
   interval (schedule_js utc defaultSettings_js
      (review_card_js\<lparr>interval := Fin 1300, easeFactor := lit 2.3\<rparr>) Easy 1000) = Fin 3886"
proof -
  let ?c = "review_card_js\<lparr>interval := Fin 1300, easeFactor := lit 2.3\<rparr>"
  have r: "state review_card_js = Review" "interval review_card_js = Fin 10"
    "easeFactor review_card_js = Fin (5 / 2)"
    by (simp_all add: review_card_js_def)
  have c: "state ?c = Review" "interval ?c = Fin 1300" "easeFactor ?c = lit (23 / 10)"
    by (simp_all add: review_card_js_def)
  have b: "easyBonus defaultSettings_js = lit (13 / 10)" by (simp add: defaultSettings_js_def)
  note t = review_easy_js [OF r(1), of utc defaultSettings_js 1000 32]
  note u = review_easy_js [OF c(1), of utc defaultSettings_js 1000 3886]
  from t [THEN conjunct1]
  have i: "interval (schedule_js utc defaultSettings_js review_card_js Easy 1000) = Fin 32"
    by (simp add: r b product_10)
  from t [THEN conjunct2, THEN conjunct1]
  have e: "easeFactor (schedule_js utc defaultSettings_js review_card_js Easy 1000) =
      lit (53 / 20)"
    by (simp add: r sum_265)
  note st = t [THEN conjunct2, THEN conjunct2, THEN conjunct1]
  have z: "LocalTZA utc 1000 True = LocalTZA utc (LocalTime utc 1000 + 32 * msPerDay) False"
    by (simp add: utc_def fixed_zone_def)
  have v: "valid_time (1000 + 32 * msPerDay)"
    by (simp add: valid_time_def maxTime_def msPerDay_def)
  from t [THEN conjunct2, THEN conjunct2, THEN conjunct2, THEN conjunct2, THEN conjunct1] i z v
  have "dueDate (schedule_js utc defaultSettings_js review_card_js Easy 1000) =
      Some (1000 + 32 * msPerDay)"
    by simp
  then have d: "dueDate (schedule_js utc defaultSettings_js review_card_js Easy 1000) =
      Some (1000 + 32 * 86400000)"
    by (simp add: msPerDay_def)
  from u [THEN conjunct1]
  have j: "interval (schedule_js utc defaultSettings_js ?c Easy 1000) = Fin 3886"
    by (simp only: c b product_1300)
  from r(1) i e st d j show ?thesis by simp
qed

lemma days_later_utc: "days_later utc t n = clip (t + n * msPerDay)"
  by (simp add: days_later_def utc_def fixed_zone_def UTC_def LocalTime_def)

text \<open>
  Claim C6 as it is stated, with the due date at \<open>now\<close> plus the new interval in days,
  fails. With the default configuration in UTC, a card with an interval of a hundred
  million days gets the interval 325000000 and an invalid due date: the instant is outside
  the range of \<^verbatim>\<open>Date\<close>. And Scenario C itself, rated in New York on 20 February
  2026 at 17:00 UTC, is due 32 days less one hour later, since the clocks are set forward
  in between.
\<close>

theorem review_easy_js_counterexample:
  "state long_interval_card = Review \<and>
   interval (schedule_js utc defaultSettings_js long_interval_card Easy 1000) = Fin 325000000 \<and>
   dueDate (schedule_js utc defaultSettings_js long_interval_card Easy 1000) = None \<and>
   state review_card_js = Review \<and>
   interval (schedule_js new_york_spring defaultSettings_js review_card_js Easy 1771606800000) =
     Fin 32 \<and>
   dueDate (schedule_js new_york_spring defaultSettings_js review_card_js Easy 1771606800000) =
     Some (1771606800000 + 32 * 86400000 - 3600000)"
proof -
  have l: "state long_interval_card = Review" "interval long_interval_card = Fin 100000000"
    "easeFactor long_interval_card = Fin 2.5"
    by (simp_all add: long_interval_card_def review_card_js_def)
  have r: "state review_card_js = Review" "interval review_card_js = Fin 10"
    "easeFactor review_card_js = Fin 2.5"
    by (simp_all add: review_card_js_def)
  have b: "easyBonus defaultSettings_js = lit 1.3" by (simp add: defaultSettings_js_def)
  note fl = review_easy_js_fields[OF l(1), of utc defaultSettings_js 1000]
  note fr = review_easy_js_fields[OF r(1), of new_york_spring defaultSettings_js 1771606800000]
  have 1: "interval (schedule_js utc defaultSettings_js long_interval_card Easy 1000) =
      Fin 325000000"
    by (simp add: fl(1) l b product_long)
  have "dueDate (schedule_js utc defaultSettings_js long_interval_card Easy 1000) =
      dueDate (setNextDueDays_js utc long_interval_card (Fin (of_int 325000000)) 1000)"
    by (simp add: fl(4) l b product_long)
  also have "\<dots> = days_later utc 1000 325000000"
    by (rule setNextDueDays_js_whole) simp
  also have "\<dots> = None"
    by (simp add: days_later_utc clip_def msPerDay_def maxTime_def)
  finally have 2: "dueDate (schedule_js utc defaultSettings_js long_interval_card Easy 1000) =
      None" .
  have 3: "interval (schedule_js new_york_spring defaultSettings_js review_card_js Easy
      1771606800000) = Fin 32"
    by (simp add: fr(1) r b product_10)
  have "dueDate (schedule_js new_york_spring defaultSettings_js review_card_js Easy
      1771606800000) =
      dueDate (setNextDueDays_js new_york_spring review_card_js (Fin (of_int 32)) 1771606800000)"
    by (simp add: fr(4) r b product_10)
  also have "\<dots> = days_later new_york_spring 1771606800000 32"
    by (rule setNextDueDays_js_whole) simp
  also have "\<dots> = Some (1771606800000 + 32 * 86400000 - 3600000)"
    by (simp add: days_later_def new_york_spring_def changing_zone_def UTC_def LocalTime_def
        clip_def msPerDay_def maxTime_def)
  finally have 4: "dueDate (schedule_js new_york_spring defaultSettings_js review_card_js Easy
      1771606800000) = Some (1771606800000 + 32 * 86400000 - 3600000)" .
  from l(1) r(1) 1 2 3 4 show ?thesis by simp
qed

subsection \<open>A passed learning step: examples\<close>

text \<open>
  Scenarios A and B at the instant 1000 in UTC, with the default configuration: the new
  card at step 0 moves to step 1 and is due ten minutes later; the card at step 1, the
  last one, moves to \<open>Review\<close> with interval 1 and is due one day later.
\<close>

theorem learning_good_js_witness:
  "state new_card_js \<noteq> Review \<and> 0 \<le> stepIndex new_card_js \<and>
   stepIndex new_card_js < int (length (learningSteps defaultSettings_js)) \<and>
   stepIndex new_card_js \<noteq> int (length (learningSteps defaultSettings_js)) - 1 \<and>
   stepIndex (schedule_js utc defaultSettings_js new_card_js Good 1000) = 1 \<and>
   state (schedule_js utc defaultSettings_js new_card_js Good 1000) = Learning \<and>
   dueDate (schedule_js utc defaultSettings_js new_card_js Good 1000) = Some (1000 + 10 * 60000) \<and>
   state last_step_card_js \<noteq> Review \<and> 0 \<le> stepIndex last_step_card_js \<and>
   stepIndex last_step_card_js < int (length (learningSteps defaultSettings_js)) \<and>
   stepIndex last_step_card_js = int (length (learningSteps defaultSettings_js)) - 1 \<and>
   state (schedule_js utc defaultSettings_js last_step_card_js Good 1000) = Review \<and>
   interval (schedule_js utc defaultSettings_js last_step_card_js Good 1000) = Fin 1 \<and>
   dueDate (schedule_js utc defaultSettings_js last_step_card_js Good 1000) =
     Some (1000 + 86400000)"
proof -
  have a: "state new_card_js \<noteq> Review" "0 \<le> stepIndex new_card_js"
    "stepIndex new_card_js < int (length (learningSteps defaultSettings_js))"
    "stepIndex new_card_js \<noteq> int (length (learningSteps defaultSettings_js)) - 1"
    "stepIndex new_card_js = 0"
    by (simp_all add: new_card_js_def defaultSettings_js_def)
  have b: "state last_step_card_js \<noteq> Review" "0 \<le> stepIndex last_step_card_js"
    "stepIndex last_step_card_js < int (length (learningSteps defaultSettings_js))"
    "stepIndex last_step_card_js = int (length (learningSteps defaultSettings_js)) - 1"
    by (simp_all add: last_step_card_js_def defaultSettings_js_def)
  have s: "learningSteps defaultSettings_js ! Suc 0 = Fin 10"
    "graduatingInterval defaultSettings_js = Fin (of_int 1)"
    by (simp_all add: default_js)
  note t = learning_good_js [OF a(1-3), where h = utc and now = 1000 and m = 10
      and p = 600000]
  note u = learning_good_js [OF b(1-3), where h = utc and now = 1000 and n = 1]
  note ts = t [THEN conjunct1, THEN mp, OF a(4)]
  from ts [THEN conjunct1] a(5)
  have t1: "stepIndex (schedule_js utc defaultSettings_js new_card_js Good 1000) = 1"
    by simp
  note t2 = ts [THEN conjunct2, THEN conjunct1]
  from ts [THEN conjunct2, THEN conjunct2, THEN conjunct2]
  have t3:
    "dueDate (schedule_js utc defaultSettings_js new_card_js Good 1000) = Some (1000 + 10 * 60000)"
    by (simp add: t1 s(1) valid_time_def maxTime_def)
  note us = u [THEN conjunct2, THEN mp, OF b(4)]
  note u1 = us [THEN conjunct1]
  from us [THEN conjunct2, THEN conjunct1]
  have u2: "interval (schedule_js utc defaultSettings_js last_step_card_js Good 1000) = Fin 1"
    by (simp add: default_js)
  have z: "LocalTZA utc 1000 True = LocalTZA utc (LocalTime utc 1000 + 1 * msPerDay) False"
    by (simp add: utc_def fixed_zone_def)
  have v: "valid_time (1000 + 1 * msPerDay)"
    by (simp add: valid_time_def maxTime_def msPerDay_def)
  from us [THEN conjunct2, THEN conjunct2, THEN conjunct2] s(2) z v
  have "dueDate (schedule_js utc defaultSettings_js last_step_card_js Good 1000) =
      Some (1000 + 1 * msPerDay)"
    by simp
  then have u3: "dueDate (schedule_js utc defaultSettings_js last_step_card_js Good 1000) =
      Some (1000 + 86400000)"
    by (simp add: msPerDay_def)
  from a(1-4) b t1 t2 t3 u1 u2 u3 show ?thesis by simp
qed

lemma DateFromTime_2000: "DateFromTime 946684800000 = 1"
proof -
  have "year_from 0 2000 = (0, 2000)"
    by (subst year_from.simps) (simp add: days_in_year_def)
  then show ?thesis by (simp add: DateFromTime_def Day_def msPerDay_def month_lengths_def)
qed

text \<open>
  Claim C5 as it is stated, with the due date at \<open>now\<close> plus
  \<^verbatim>\<open>graduatingInterval\<close> days, fails. With \<^verbatim>\<open>graduatingInterval\<close> overridden by
  1.5, the card at the last step that is rated \<open>Good\<close> on 1 January 2000 in UTC gets
  the interval 1.5 and is due one day later, not one and a half: \<^verbatim>\<open>setDate\<close>
  truncates. And with the default configuration in New York, the card rated on 7 March
  2026 at 17:00 UTC is due 23 hours later, since the clocks are set forward that night.
  The due date in minutes fails as well: Scenario A at the last instant of the range of
  \<^verbatim>\<open>Date\<close> gets an invalid due date, and with a second step of \<open>2^-20\<close>
  minutes, which is less than a millisecond, the new card is due at \<open>now\<close> itself.
\<close>

theorem learning_good_js_counterexample:
  "state last_step_card_js \<noteq> Review \<and>
   stepIndex last_step_card_js = int (length (learningSteps fractional_settings)) - 1 \<and>
   graduatingInterval fractional_settings = Fin 1.5 \<and>
   interval (schedule_js utc fractional_settings last_step_card_js Good 946684800000) = Fin 1.5 \<and>
   dueDate (schedule_js utc fractional_settings last_step_card_js Good 946684800000) =
     Some (946684800000 + 86400000) \<and>
   stepIndex last_step_card_js = int (length (learningSteps defaultSettings_js)) - 1 \<and>
   graduatingInterval defaultSettings_js = Fin 1 \<and>
   dueDate (schedule_js new_york_spring defaultSettings_js last_step_card_js Good 1772902800000) =
     Some (1772902800000 + 82800000) \<and>
   state new_card_js \<noteq> Review \<and>
   stepIndex new_card_js \<noteq> int (length (learningSteps defaultSettings_js)) - 1 \<and>
   learningSteps defaultSettings_js ! 1 = Fin 10 \<and>
   valid_time 8640000000000000 \<and>
   dueDate (schedule_js utc defaultSettings_js new_card_js Good 8640000000000000) = None \<and>
   stepIndex new_card_js \<noteq> int (length (learningSteps short_step_settings)) - 1 \<and>
   learningSteps short_step_settings ! 1 = Fin (1 / 1048576) \<and>
   dueDate (schedule_js utc short_step_settings new_card_js Good 1000) = Some 1000"
proof -
  have c: "state last_step_card_js \<noteq> Review" "stepIndex last_step_card_js = 1"
    by (simp_all add: last_step_card_js_def)
  have n: "state new_card_js \<noteq> Review" "stepIndex new_card_js = 0"
    by (simp_all add: new_card_js_def)
  have t: "learningSteps defaultSettings_js ! Suc 0 = Fin 10"
    by (simp add: default_js)
  have s: "length (learningSteps short_step_settings) = 2"
    "learningSteps short_step_settings ! Suc 0 = Fin (1 / 1048576)"
    by (simp_all add: short_step_settings_def)
  have v: "valid_time 8640000000000000" by (simp add: valid_time_def maxTime_def)
  have f: "length (learningSteps fractional_settings) = 2"
    "graduatingInterval fractional_settings = Fin 1.5"
    by (simp_all add: fractional_settings_def defaultSettings_js_def)
  have d: "length (learningSteps defaultSettings_js) = 2"
    "graduatingInterval defaultSettings_js = Fin 1"
    by (simp_all add: default_js)
  have gf: "\<not> stepIndex last_step_card_js < int (length (learningSteps fractional_settings)) - 1"
    by (simp add: c f)
  have gd: "\<not> stepIndex last_step_card_js < int (length (learningSteps defaultSettings_js)) - 1"
    by (simp add: c d)
  note ff = learning_good_js_graduate[OF c(1) gf, of utc 946684800000]
  note fd = learning_good_js_graduate[OF c(1) gd, of new_york_spring 1772902800000]
  have sum: "dadd (getDate utc 946684800000) (Fin 1.5) = Fin 2.5"
    unfolding getDate_def dadd_def
    by (simp add: utc_def fixed_zone_def LocalTime_def DateFromTime_2000,
        rule round64_pos_eq[where e = "- 51" and m = "5629499534213120"])
      (simp_all add: pow2_def rhe_def)
  have "dueDate (setNextDueDays_js utc last_step_card_js (Fin 1.5) 946684800000) =
      days_later utc 946684800000 (trunc 2.5 - DateFromTime (LocalTime utc 946684800000))"
    using sum by (rule setNextDueDays_js_shift)
  also have "\<dots> = Some (946684800000 + 86400000)"
    by (simp add: days_later_def utc_def fixed_zone_def UTC_def LocalTime_def DateFromTime_2000
        trunc_def clip_def msPerDay_def maxTime_def)
  finally have 1: "dueDate (schedule_js utc fractional_settings last_step_card_js Good
      946684800000) = Some (946684800000 + 86400000)"
    by (simp add: ff(3) f)
  have "dueDate (setNextDueDays_js new_york_spring last_step_card_js (Fin (of_int 1))
      1772902800000) = days_later new_york_spring 1772902800000 1"
    by (rule setNextDueDays_js_whole) simp
  also have "\<dots> = Some (1772902800000 + 82800000)"
    by (simp add: days_later_def new_york_spring_def changing_zone_def UTC_def LocalTime_def
        clip_def msPerDay_def maxTime_def)
  finally have 2: "dueDate (schedule_js new_york_spring defaultSettings_js last_step_card_js Good
      1772902800000) = Some (1772902800000 + 82800000)"
    by (simp add: fd(3) d)
  have ld: "stepIndex new_card_js < int (length (learningSteps defaultSettings_js)) - 1"
    by (simp add: n d)
  have ls: "stepIndex new_card_js < int (length (learningSteps short_step_settings)) - 1"
    by (simp add: n s)
  note sd = learning_good_js_step[OF n(1) ld, of utc 8640000000000000]
  note ss = learning_good_js_step[OF n(1) ls, of utc 1000]
  have "dmul (Fin 10) (Fin 60000) = Fin 600000"
    using round64_int[of 600000] by (simp add: dmul_def)
  moreover have "dadd (Fin 8640000000000000) (Fin 600000) = Fin 8640000000600000"
    using round64_int[of 8640000000600000] by (simp add: dadd_def)
  ultimately have 3: "dueDate (schedule_js utc defaultSettings_js new_card_js Good
      8640000000000000) = None"
    by (simp add: sd(3) n d t step_at_js_def TimeClip_def maxTime_def)
  have "dmul (Fin (1 / 1048576)) (Fin 60000) = Fin (1875 / 32768)"
    unfolding dmul_def
    by (simp, rule round64_pos_eq[where e = "- 57" and m = "8246337208320000"])
      (simp_all add: pow2_def rhe_def)
  moreover have "dadd (Fin 1000) (Fin (1875 / 32768)) = Fin (32769875 / 32768)"
    unfolding dadd_def
    by (simp, rule round64_pos_eq[where e = "- 43" and m = "8796596338688000"])
      (simp_all add: pow2_def rhe_def)
  ultimately have 4: "dueDate (schedule_js utc short_step_settings new_card_js Good 1000) =
      Some 1000"
    by (simp add: ss(3) n s step_at_js_def TimeClip_def maxTime_def trunc_def)
  from c f d ff(2) 1 2 n t s v 3 4 show ?thesis by simp
qed

subsection \<open>The due date and \<open>now\<close>: examples\<close>






end
